theory Spec2Isabelle
  imports Main "HOL-Library.Sublist" "HOL-Library.Char_ord" "HOL-Library.List_Lexorder"
begin

section \<open>Data model (shared/schema.ts)\<close>

text \<open>
  The tables of \<^verbatim>\<open>shared/schema.ts\<close>. A row type (\<^verbatim>\<open>typeof table.$inferSelect\<close>) is a
  record; a nullable column is an \<open>option\<close>; a \<^verbatim>\<open>pgEnum\<close> is a datatype; \<^verbatim>\<open>serial\<close> and
  \<^verbatim>\<open>integer\<close> columns and JavaScript numbers holding them are \<open>int\<close>; a \<^verbatim>\<open>timestamp\<close> is
  a number of milliseconds. Field names carry a prefix for their table (\<open>a_\<close> admins,
  \<open>c_\<close> clients, \<open>i_\<close> interactions, \<open>l_\<close> audit logs), since the tables share column
  names.
\<close>

type_synonym timestamp = int

datatype marketType = Local | Oversea
datatype segment = FIT | Series | Group | OTA | Wellness
datatype businessType = TourOperator | TravelAgent
datatype interactionType = Call | Email | Meeting | Note | Other

record admin =
  a_id :: int
  a_username :: string
  a_password :: string
  a_fullName :: string
  a_email :: string
  a_role :: string
  a_active :: bool
  a_lastLogin :: "timestamp option"
  a_createdAt :: timestamp

record client =
  c_id :: int
  c_firstName :: string
  c_lastName :: string
  c_email :: string
  c_phone :: string
  c_marketType :: marketType
  c_market :: "string option"
  c_segment :: "segment option"
  c_businessType :: "businessType option"
  c_headcountName :: "string option"
  c_headcountRole :: "string option"
  c_headcountEmail :: "string option"
  c_if_active :: "bool option"
  c_createdAt :: timestamp
  c_updatedAt :: timestamp
  c_createdBy :: "int option"

record interaction =
  i_id :: int
  i_clientId :: int
  i_type :: interactionType
  i_title :: string
  i_description :: string
  i_date :: timestamp
  i_createdAt :: timestamp
  i_updatedAt :: timestamp
  i_createdBy :: "int option"

record auditLog =
  l_id :: int
  l_adminId :: "int option"
  l_entityType :: string
  l_entityId :: int
  l_action :: string
  l_details :: string
  l_createdAt :: timestamp

text \<open>
  The database: the four tables in heap order (a row inserted later stands later), and
  the last value of each \<^verbatim>\<open>serial\<close> column's sequence.
\<close>

record db =
  admins :: "admin list"
  clients :: "client list"
  interactions :: "interaction list"
  auditLogs :: "auditLog list"
  admins_id_seq :: int
  clients_id_seq :: int
  interactions_id_seq :: int
  audit_logs_id_seq :: int

text \<open>
  A statement the database rejects makes the awaited promise reject. The declared
  constraints that a statement of \<^verbatim>\<open>DatabaseStorage\<close> can violate are the primary keys,
  \<^verbatim>\<open>admins.username unique\<close> and the \<^verbatim>\<open>references\<close> clauses; \<^verbatim>\<open>NoValuesToSet\<close> is the
  error of an \<^verbatim>\<open>update ... set\<close> with no column; \<open>OutOfRange\<close> is the error of a
  number that is bound to a parameter of an \<^verbatim>\<open>integer\<close> column and is no 32-bit integer
  (SQLSTATE 22003, or 22P02 for a number so large that it is sent in exponent form).
\<close>

datatype error = UniqueViolation | ForeignKeyViolation | NoValuesToSet | OutOfRange

text \<open>
  The \<^verbatim>\<open>serial\<close> and \<^verbatim>\<open>integer\<close> columns hold 32-bit integers. A number that comes with
  the call (the id argument of a lookup, an update or a delete, an integer field of a
  partial update) is checked against that range by the database, before anything else.
  The integers that an insert writes come from a sequence, from an admin row or from an
  id that a lookup has accepted, and are not checked again.
\<close>

definition int4 :: "int \<Rightarrow> bool" where
  "int4 n = (- 2147483648 \<le> n \<and> n \<le> 2147483647)"

definition int4_opt :: "int option \<Rightarrow> bool" where
  "int4_opt v = (case v of None \<Rightarrow> True | Some n \<Rightarrow> int4 n)"

definition int4_nullable :: "int option option \<Rightarrow> bool" where
  "int4_nullable v = (case v of None \<Rightarrow> True | Some r \<Rightarrow> int4_opt r)"

text \<open>
  The result of an awaited storage call: rejected or resolved, and the database after
  it. A rejected statement changes no table. A call that only reads has no database
  after it.
\<close>

type_synonym 'a io = "(error + 'a) \<times> db"

type_synonym 'a read = "error + 'a"

text \<open>
  The input types. \<^verbatim>\<open>InsertX\<close> is what the insert schema infers: a column that is not
  null and has no default is required, a column with a default may be absent (\<open>None\<close>),
  a nullable column may be absent or null (both store NULL, so both are \<open>None\<close>; for
  \<^verbatim>\<open>if_active\<close>, nullable with a default, absent is \<open>None\<close> and null is \<open>Some None\<close>).
  \<^verbatim>\<open>Partial<X>\<close> has every column of the row as an optional field.
\<close>

record insertAdmin =
  ia_username :: string
  ia_password :: string
  ia_fullName :: string
  ia_email :: string
  ia_role :: "string option"
  ia_active :: "bool option"

record insertClient =
  ic_firstName :: string
  ic_lastName :: string
  ic_email :: string
  ic_phone :: string
  ic_marketType :: "marketType option"
  ic_market :: "string option"
  ic_segment :: "segment option"
  ic_businessType :: "businessType option"
  ic_headcountName :: "string option"
  ic_headcountRole :: "string option"
  ic_headcountEmail :: "string option"
  ic_if_active :: "bool option option"
  ic_createdBy :: "int option"

record insertInteraction =
  ii_clientId :: int
  ii_type :: interactionType
  ii_title :: string
  ii_description :: string
  ii_date :: timestamp
  ii_createdBy :: "int option"

record insertAuditLog =
  il_adminId :: "int option"
  il_entityType :: string
  il_entityId :: int
  il_action :: string
  il_details :: string

record partialAdmin =
  pa_id :: "int option"
  pa_username :: "string option"
  pa_password :: "string option"
  pa_fullName :: "string option"
  pa_email :: "string option"
  pa_role :: "string option"
  pa_active :: "bool option"
  pa_lastLogin :: "timestamp option option"
  pa_createdAt :: "timestamp option"

record partialClient =
  pc_id :: "int option"
  pc_firstName :: "string option"
  pc_lastName :: "string option"
  pc_email :: "string option"
  pc_phone :: "string option"
  pc_marketType :: "marketType option"
  pc_market :: "string option option"
  pc_segment :: "segment option option"
  pc_businessType :: "businessType option option"
  pc_headcountName :: "string option option"
  pc_headcountRole :: "string option option"
  pc_headcountEmail :: "string option option"
  pc_if_active :: "bool option option"
  pc_createdAt :: "timestamp option"
  pc_updatedAt :: "timestamp option"
  pc_createdBy :: "int option option"

record partialInteraction =
  pi_id :: "int option"
  pi_clientId :: "int option"
  pi_type :: "interactionType option"
  pi_title :: "string option"
  pi_description :: "string option"
  pi_date :: "timestamp option"
  pi_createdAt :: "timestamp option"
  pi_updatedAt :: "timestamp option"
  pi_createdBy :: "int option option"

text \<open>\<^verbatim>\<open>set\<close> of one column: the value given, or the old one when the key is absent.\<close>

definition setcol :: "'a option \<Rightarrow> 'a \<Rightarrow> 'a" where
  "setcol v old = (case v of None \<Rightarrow> old | Some x \<Rightarrow> x)"

text \<open>
  A statement that writes rows \<open>new\<close> beside the untouched rows \<open>others\<close> violates a
  unique index on \<open>key\<close> when two of the resulting rows share the key.
\<close>

definition unique_ok :: "('r \<Rightarrow> 'k) \<Rightarrow> 'r list \<Rightarrow> 'r list \<Rightarrow> bool" where
  "unique_ok key new others =
     (distinct (map key new) \<and> (\<forall>r \<in> set new. key r \<notin> key ` set others))"

text \<open>A nullable \<^verbatim>\<open>references(() => admins.id)\<close> column: NULL, or the id of an admin row.\<close>

definition admin_ref_ok :: "int option \<Rightarrow> db \<Rightarrow> bool" where
  "admin_ref_ok r d = (case r of None \<Rightarrow> True | Some a \<Rightarrow> a \<in> a_id ` set (admins d))"

definition admin_referenced :: "int \<Rightarrow> db \<Rightarrow> bool" where
  "admin_referenced a d =
     (Some a \<in> c_createdBy ` set (clients d)
      \<or> Some a \<in> i_createdBy ` set (interactions d)
      \<or> Some a \<in> l_adminId ` set (auditLogs d))"

section \<open>DatabaseStorage: admins\<close>

definition getAdmin :: "int \<Rightarrow> db \<Rightarrow> admin option read" where
  "getAdmin ident d =
     (if \<not> int4 ident then Inl OutOfRange else Inr (find (\<lambda>a. a_id a = ident) (admins d)))"

definition getAdminByUsername :: "string \<Rightarrow> db \<Rightarrow> admin option" where
  "getAdminByUsername username d = find (\<lambda>a. a_username a = username) (admins d)"

text \<open>
  \<^verbatim>\<open>bcrypt\<close> is a library: its \<^verbatim>\<open>hash(data, rounds)\<close> is the parameter \<open>bhash\<close> and its
  \<^verbatim>\<open>compare\<close> the parameter \<open>bcompare\<close>. An insert takes its \<^verbatim>\<open>serial\<close> id from the
  sequence, which stays advanced when the insert is rejected; \<open>now\<close> is what
  \<^verbatim>\<open>defaultNow()\<close> reads.
\<close>

definition createAdmin :: "(string \<Rightarrow> nat \<Rightarrow> string) \<Rightarrow> insertAdmin \<Rightarrow> timestamp \<Rightarrow> db \<Rightarrow> admin io" where
  "createAdmin bhash insertAdmin now d =
     (let hashedPassword = bhash (ia_password insertAdmin) 10;
          d1 = d\<lparr>admins_id_seq := admins_id_seq d + 1\<rparr>;
          row = \<lparr>a_id = admins_id_seq d + 1,
                 a_username = ia_username insertAdmin,
                 a_password = hashedPassword,
                 a_fullName = ia_fullName insertAdmin,
                 a_email = ia_email insertAdmin,
                 a_role = setcol (ia_role insertAdmin) ''user'',
                 a_active = setcol (ia_active insertAdmin) True,
                 a_lastLogin = None,
                 a_createdAt = now\<rparr>
      in if \<not> unique_ok a_id [row] (admins d) \<or> \<not> unique_ok a_username [row] (admins d)
         then (Inl UniqueViolation, d1)
         else (Inr row, d1\<lparr>admins := admins d @ [row]\<rparr>))"

definition set_admin :: "partialAdmin \<Rightarrow> admin \<Rightarrow> admin" where
  "set_admin p a =
     \<lparr>a_id = setcol (pa_id p) (a_id a),
      a_username = setcol (pa_username p) (a_username a),
      a_password = setcol (pa_password p) (a_password a),
      a_fullName = setcol (pa_fullName p) (a_fullName a),
      a_email = setcol (pa_email p) (a_email a),
      a_role = setcol (pa_role p) (a_role a),
      a_active = setcol (pa_active p) (a_active a),
      a_lastLogin = setcol (pa_lastLogin p) (a_lastLogin a),
      a_createdAt = setcol (pa_createdAt p) (a_createdAt a)\<rparr>"

definition no_values_admin :: "partialAdmin \<Rightarrow> bool" where
  "no_values_admin p =
     (pa_id p = None \<and> pa_username p = None \<and> pa_password p = None \<and> pa_fullName p = None
      \<and> pa_email p = None \<and> pa_role p = None \<and> pa_active p = None \<and> pa_lastLogin p = None
      \<and> pa_createdAt p = None)"

text \<open>
  \<^verbatim>\<open>if (adminData.password)\<close> is JavaScript truthiness: a present, non-empty string.
  The update is rejected when a changed id or username collides with another row, or
  when the id changes while another table still refers to it (no \<^verbatim>\<open>onUpdate\<close> action
  is declared).
\<close>

definition updateAdmin :: "(string \<Rightarrow> nat \<Rightarrow> string) \<Rightarrow> int \<Rightarrow> partialAdmin \<Rightarrow> db \<Rightarrow> admin option io" where
  "updateAdmin bhash ident adminData0 d =
     (let adminData =
            (case pa_password adminData0 of
               Some pw \<Rightarrow> if pw \<noteq> [] then adminData0\<lparr>pa_password := Some (bhash pw 10)\<rparr>
                          else adminData0
             | None \<Rightarrow> adminData0);
          new = map (set_admin adminData) (filter (\<lambda>a. a_id a = ident) (admins d));
          others = filter (\<lambda>a. a_id a \<noteq> ident) (admins d)
      in if no_values_admin adminData then (Inl NoValuesToSet, d)
         else if \<not> (int4 ident \<and> int4_opt (pa_id adminData)) then (Inl OutOfRange, d)
         else if (pa_id adminData \<noteq> None \<and> \<not> unique_ok a_id new others)
                 \<or> (pa_username adminData \<noteq> None \<and> \<not> unique_ok a_username new others)
         then (Inl UniqueViolation, d)
         else if new \<noteq> [] \<and> pa_id adminData \<noteq> None \<and> pa_id adminData \<noteq> Some ident
                 \<and> admin_referenced ident d
         then (Inl ForeignKeyViolation, d)
         else (Inr (case new of [] \<Rightarrow> None | admin # _ \<Rightarrow> Some admin),
               d\<lparr>admins := map (\<lambda>a. if a_id a = ident then set_admin adminData a else a) (admins d)\<rparr>))"

definition listAdmins :: "db \<Rightarrow> admin list" where
  "listAdmins d = sort_key a_fullName (admins d)"

definition validatePassword :: "(string \<Rightarrow> string \<Rightarrow> bool) \<Rightarrow> string \<Rightarrow> string \<Rightarrow> bool" where
  "validatePassword bcompare plainPassword hashedPassword = bcompare plainPassword hashedPassword"

definition updateLastLogin :: "int \<Rightarrow> timestamp \<Rightarrow> db \<Rightarrow> unit io" where
  "updateLastLogin ident now d =
     (if \<not> int4 ident then (Inl OutOfRange, d)
      else (Inr (),
            d\<lparr>admins := map (\<lambda>a. if a_id a = ident then a\<lparr>a_lastLogin := Some now\<rparr> else a)
                            (admins d)\<rparr>))"

section \<open>DatabaseStorage: clients and interactions, reads and deletes\<close>

text \<open>
  \<^verbatim>\<open>const [x] = await db.select()...\<close> takes the first row, or \<^verbatim>\<open>undefined\<close>; the select
  is rejected when the id is no 32-bit integer.
\<close>

definition getClient :: "int \<Rightarrow> db \<Rightarrow> client option read" where
  "getClient ident d =
     (if \<not> int4 ident then Inl OutOfRange else Inr (find (\<lambda>c. c_id c = ident) (clients d)))"

definition getInteraction :: "int \<Rightarrow> db \<Rightarrow> interaction option read" where
  "getInteraction ident d =
     (if \<not> int4 ident then Inl OutOfRange
      else Inr (find (\<lambda>i. i_id i = ident) (interactions d)))"

text \<open>\<^verbatim>\<open>orderBy(desc(interactions.date))\<close>: a stable sort on the negated date.\<close>

definition listInteractionsByClient :: "int \<Rightarrow> db \<Rightarrow> interaction list read" where
  "listInteractionsByClient clientId d =
     (if \<not> int4 clientId then Inl OutOfRange
      else Inr (sort_key (\<lambda>i. - i_date i)
                  (filter (\<lambda>i. i_clientId i = clientId) (interactions d))))"

text \<open>
  \<^verbatim>\<open>delete from clients where id = $1 returning id\<close>. No constraint can reject it for an
  id in range: the only reference to \<^verbatim>\<open>clients.id\<close> is \<^verbatim>\<open>interactions.client_id\<close>, declared
  \<^verbatim>\<open>onDelete: 'cascade'\<close>, so the same statement deletes the interactions of every
  deleted client.
\<close>

definition deleteClient :: "int \<Rightarrow> db \<Rightarrow> bool io" where
  "deleteClient ident d =
     (let result = filter (\<lambda>c. c_id c = ident) (clients d)
      in if \<not> int4 ident then (Inl OutOfRange, d)
         else (Inr (length result > 0),
               d\<lparr>clients := filter (\<lambda>c. c_id c \<noteq> ident) (clients d),
                 interactions :=
                   filter (\<lambda>i. i_clientId i \<notin> c_id ` set result) (interactions d)\<rparr>))"

definition deleteInteraction :: "int \<Rightarrow> db \<Rightarrow> bool io" where
  "deleteInteraction ident d =
     (let result = filter (\<lambda>i. i_id i = ident) (interactions d)
      in if \<not> int4 ident then (Inl OutOfRange, d)
         else (Inr (length result > 0),
               d\<lparr>interactions := filter (\<lambda>i. i_id i \<noteq> ident) (interactions d)\<rparr>))"

section \<open>DatabaseStorage: clients, interactions and audit logs, writes\<close>

text \<open>\<^verbatim>\<open>listClients(limit: number = 100)\<close>: \<open>None\<close> is the argument left out.\<close>

definition listClients :: "nat option \<Rightarrow> db \<Rightarrow> client list" where
  "listClients limit d =
     take (case limit of None \<Rightarrow> 100 | Some n \<Rightarrow> n)
       (sort_key (\<lambda>c. - c_updatedAt c) (clients d))"

definition createClient :: "insertClient \<Rightarrow> timestamp \<Rightarrow> db \<Rightarrow> client io" where
  "createClient insertClient now d =
     (let d1 = d\<lparr>clients_id_seq := clients_id_seq d + 1\<rparr>;
          row = \<lparr>c_id = clients_id_seq d + 1,
                 c_firstName = ic_firstName insertClient,
                 c_lastName = ic_lastName insertClient,
                 c_email = ic_email insertClient,
                 c_phone = ic_phone insertClient,
                 c_marketType = setcol (ic_marketType insertClient) Local,
                 c_market = ic_market insertClient,
                 c_segment = ic_segment insertClient,
                 c_businessType = ic_businessType insertClient,
                 c_headcountName = ic_headcountName insertClient,
                 c_headcountRole = ic_headcountRole insertClient,
                 c_headcountEmail = ic_headcountEmail insertClient,
                 c_if_active = setcol (ic_if_active insertClient) (Some True),
                 c_createdAt = now,
                 c_updatedAt = now,
                 c_createdBy = ic_createdBy insertClient\<rparr>
      in if \<not> unique_ok c_id [row] (clients d) then (Inl UniqueViolation, d1)
         else if \<not> admin_ref_ok (c_createdBy row) d then (Inl ForeignKeyViolation, d1)
         else (Inr row, d1\<lparr>clients := clients d @ [row]\<rparr>))"

text \<open>\<^verbatim>\<open>{ ...clientData, updatedAt: new Date() }\<close>: the later key wins.\<close>

definition set_client :: "partialClient \<Rightarrow> client \<Rightarrow> client" where
  "set_client p c =
     \<lparr>c_id = setcol (pc_id p) (c_id c),
      c_firstName = setcol (pc_firstName p) (c_firstName c),
      c_lastName = setcol (pc_lastName p) (c_lastName c),
      c_email = setcol (pc_email p) (c_email c),
      c_phone = setcol (pc_phone p) (c_phone c),
      c_marketType = setcol (pc_marketType p) (c_marketType c),
      c_market = setcol (pc_market p) (c_market c),
      c_segment = setcol (pc_segment p) (c_segment c),
      c_businessType = setcol (pc_businessType p) (c_businessType c),
      c_headcountName = setcol (pc_headcountName p) (c_headcountName c),
      c_headcountRole = setcol (pc_headcountRole p) (c_headcountRole c),
      c_headcountEmail = setcol (pc_headcountEmail p) (c_headcountEmail c),
      c_if_active = setcol (pc_if_active p) (c_if_active c),
      c_createdAt = setcol (pc_createdAt p) (c_createdAt c),
      c_updatedAt = setcol (pc_updatedAt p) (c_updatedAt c),
      c_createdBy = setcol (pc_createdBy p) (c_createdBy c)\<rparr>"

text \<open>
  The update is rejected when a changed id collides with another row, when a newly set
  \<^verbatim>\<open>createdBy\<close> is no admin's id, or when the id changes while an interaction still
  refers to the old one (\<^verbatim>\<open>onDelete: 'cascade'\<close> says nothing about updates).
\<close>

definition updateClient :: "int \<Rightarrow> partialClient \<Rightarrow> timestamp \<Rightarrow> db \<Rightarrow> client option io" where
  "updateClient ident clientData now d =
     (let values = clientData\<lparr>pc_updatedAt := Some now\<rparr>;
          new = map (set_client values) (filter (\<lambda>c. c_id c = ident) (clients d));
          others = filter (\<lambda>c. c_id c \<noteq> ident) (clients d)
      in if \<not> (int4 ident \<and> int4_opt (pc_id values) \<and> int4_nullable (pc_createdBy values))
         then (Inl OutOfRange, d)
         else if pc_id values \<noteq> None \<and> \<not> unique_ok c_id new others
         then (Inl UniqueViolation, d)
         else if new \<noteq> [] \<and>
                 ((case pc_createdBy values of None \<Rightarrow> False | Some r \<Rightarrow> \<not> admin_ref_ok r d)
                  \<or> (pc_id values \<noteq> None \<and> pc_id values \<noteq> Some ident
                      \<and> ident \<in> i_clientId ` set (interactions d)))
         then (Inl ForeignKeyViolation, d)
         else (Inr (case new of [] \<Rightarrow> None | client # _ \<Rightarrow> Some client),
               d\<lparr>clients := map (\<lambda>c. if c_id c = ident then set_client values c else c) (clients d)\<rparr>))"

definition createInteraction :: "insertInteraction \<Rightarrow> timestamp \<Rightarrow> db \<Rightarrow> interaction io" where
  "createInteraction insertInteraction now d =
     (let d1 = d\<lparr>interactions_id_seq := interactions_id_seq d + 1\<rparr>;
          row = \<lparr>i_id = interactions_id_seq d + 1,
                 i_clientId = ii_clientId insertInteraction,
                 i_type = ii_type insertInteraction,
                 i_title = ii_title insertInteraction,
                 i_description = ii_description insertInteraction,
                 i_date = ii_date insertInteraction,
                 i_createdAt = now,
                 i_updatedAt = now,
                 i_createdBy = ii_createdBy insertInteraction\<rparr>
      in if \<not> unique_ok i_id [row] (interactions d) then (Inl UniqueViolation, d1)
         else if i_clientId row \<notin> c_id ` set (clients d) \<or> \<not> admin_ref_ok (i_createdBy row) d
         then (Inl ForeignKeyViolation, d1)
         else (Inr row, d1\<lparr>interactions := interactions d @ [row]\<rparr>))"

definition set_interaction :: "partialInteraction \<Rightarrow> interaction \<Rightarrow> interaction" where
  "set_interaction p i =
     \<lparr>i_id = setcol (pi_id p) (i_id i),
      i_clientId = setcol (pi_clientId p) (i_clientId i),
      i_type = setcol (pi_type p) (i_type i),
      i_title = setcol (pi_title p) (i_title i),
      i_description = setcol (pi_description p) (i_description i),
      i_date = setcol (pi_date p) (i_date i),
      i_createdAt = setcol (pi_createdAt p) (i_createdAt i),
      i_updatedAt = setcol (pi_updatedAt p) (i_updatedAt i),
      i_createdBy = setcol (pi_createdBy p) (i_createdBy i)\<rparr>"

definition updateInteraction :: "int \<Rightarrow> partialInteraction \<Rightarrow> timestamp \<Rightarrow> db \<Rightarrow> interaction option io" where
  "updateInteraction ident interactionData now d =
     (let values = interactionData\<lparr>pi_updatedAt := Some now\<rparr>;
          new = map (set_interaction values) (filter (\<lambda>i. i_id i = ident) (interactions d));
          others = filter (\<lambda>i. i_id i \<noteq> ident) (interactions d)
      in if \<not> (int4 ident \<and> int4_opt (pi_id values) \<and> int4_opt (pi_clientId values)
                 \<and> int4_nullable (pi_createdBy values))
         then (Inl OutOfRange, d)
         else if pi_id values \<noteq> None \<and> \<not> unique_ok i_id new others
         then (Inl UniqueViolation, d)
         else if new \<noteq> [] \<and>
                 ((case pi_clientId values of None \<Rightarrow> False | Some c \<Rightarrow> c \<notin> c_id ` set (clients d))
                  \<or> (case pi_createdBy values of None \<Rightarrow> False | Some r \<Rightarrow> \<not> admin_ref_ok r d))
         then (Inl ForeignKeyViolation, d)
         else (Inr (case new of [] \<Rightarrow> None | interaction # _ \<Rightarrow> Some interaction),
               d\<lparr>interactions :=
                    map (\<lambda>i. if i_id i = ident then set_interaction values i else i) (interactions d)\<rparr>))"

definition storage_createAuditLog :: "insertAuditLog \<Rightarrow> timestamp \<Rightarrow> db \<Rightarrow> auditLog io" where
  "storage_createAuditLog insertLog now d =
     (let d1 = d\<lparr>audit_logs_id_seq := audit_logs_id_seq d + 1\<rparr>;
          row = \<lparr>l_id = audit_logs_id_seq d + 1,
                 l_adminId = il_adminId insertLog,
                 l_entityType = il_entityType insertLog,
                 l_entityId = il_entityId insertLog,
                 l_action = il_action insertLog,
                 l_details = il_details insertLog,
                 l_createdAt = now\<rparr>
      in if \<not> unique_ok l_id [row] (auditLogs d) then (Inl UniqueViolation, d1)
         else if \<not> admin_ref_ok (l_adminId row) d then (Inl ForeignKeyViolation, d1)
         else (Inr row, d1\<lparr>auditLogs := auditLogs d @ [row]\<rparr>))"

definition listAuditLogs :: "nat option \<Rightarrow> db \<Rightarrow> auditLog list" where
  "listAuditLogs limit d =
     take (case limit of None \<Rightarrow> 100 | Some n \<Rightarrow> n)
       (sort_key (\<lambda>l. - l_createdAt l) (auditLogs d))"

definition getClientAuditLogs :: "int \<Rightarrow> db \<Rightarrow> auditLog list read" where
  "getClientAuditLogs clientId d =
     (if \<not> int4 clientId then Inl OutOfRange
      else Inr (sort_key (\<lambda>l. - l_createdAt l)
                  (filter (\<lambda>l. l_entityType l = ''client'' \<and> l_entityId l = clientId)
                     (auditLogs d))))"

section \<open>searchClients\<close>

text \<open>
  \<^verbatim>\<open>ILIKE\<close> compares without regard to case (here: of the ASCII letters). In a pattern,
  \<^verbatim>\<open>%\<close> stands for any run of characters, \<^verbatim>\<open>_\<close> for any one character, and a backslash
  makes the next character literal. A pattern that ends in a lone backslash is an
  error in PostgreSQL; \<open>searchClients\<close> never builds one, since its pattern ends in
  \<^verbatim>\<open>%\<close>, and \<open>like_match\<close> answers \<open>False\<close> there.
\<close>

definition lower_char :: "char \<Rightarrow> char" where
  "lower_char c = (if CHR ''A'' \<le> c \<and> c \<le> CHR ''Z'' then char_of (of_char c + (32::nat)) else c)"

fun like_match :: "string \<Rightarrow> string \<Rightarrow> bool" where
  "like_match [] s = (s = [])"
| "like_match (p # ps) s =
     (if p = CHR ''%'' then
        like_match ps s \<or> (case s of [] \<Rightarrow> False | _ # t \<Rightarrow> like_match (p # ps) t)
      else if p = CHR ''_'' then
        (case s of [] \<Rightarrow> False | _ # t \<Rightarrow> like_match ps t)
      else if p = CHR 0x5C then
        (case ps of [] \<Rightarrow> False
         | q # qs \<Rightarrow> (case s of [] \<Rightarrow> False
                      | c # t \<Rightarrow> lower_char c = lower_char q \<and> like_match qs t))
      else
        (case s of [] \<Rightarrow> False | c # t \<Rightarrow> lower_char c = lower_char p \<and> like_match ps t))"

definition ilike :: "string \<Rightarrow> string \<Rightarrow> bool" where
  "ilike s pattern = like_match pattern s"

definition searchClients :: "string \<Rightarrow> db \<Rightarrow> client list" where
  "searchClients query d =
     filter (\<lambda>c. ilike (c_firstName c @ '' '' @ c_lastName c) (''%'' @ query @ ''%'')
                \<or> ilike (c_email c) (''%'' @ query @ ''%'')
                \<or> ilike (c_phone c) (''%'' @ query @ ''%''))
            (clients d)"

section \<open>Request bodies and the insert schemas\<close>

text \<open>
  A parsed JSON body is an object: a list of keys and values, a later key overriding
  an earlier one. \<open>JNum\<close> is a number that is an integer; \<open>JOther\<close> is any other value:
  a number that is no integer, an array or a nested object.
\<close>

datatype json = JNull | JBool bool | JNum int | JStr string | JOther

type_synonym jobject = "(string \<times> json) list"

definition field :: "jobject \<Rightarrow> string \<Rightarrow> json option" where
  "field b k = map_of (rev b) k"

text \<open>
  A Zod issue is a path and a code; \<^verbatim>\<open>parse\<close> collects the issues of every key, in the
  order of the schema's keys, and throws a \<^verbatim>\<open>ZodError\<close> when there is one.
\<close>

datatype issue_code = invalid_type | invalid_enum_value | too_small | too_big | invalid_date

type_synonym issue = "string \<times> issue_code"

type_synonym 'a parsed = "issue list + 'a"

fun ap :: "('a \<Rightarrow> 'b) parsed \<Rightarrow> 'a parsed \<Rightarrow> 'b parsed" where
  "ap (Inl i) (Inl j) = Inl (i @ j)"
| "ap (Inl i) (Inr x) = Inl i"
| "ap (Inr f) (Inl j) = Inl j"
| "ap (Inr f) (Inr x) = Inr (f x)"

definition zString :: "string \<Rightarrow> jobject \<Rightarrow> string parsed" where
  "zString k b = (case field b k of Some (JStr s) \<Rightarrow> Inr s | _ \<Rightarrow> Inl [(k, invalid_type)])"

definition zStringMin :: "nat \<Rightarrow> string \<Rightarrow> jobject \<Rightarrow> string parsed" where
  "zStringMin n k b =
     (case field b k of
        Some (JStr s) \<Rightarrow> if n \<le> length s then Inr s else Inl [(k, too_small)]
      | _ \<Rightarrow> Inl [(k, invalid_type)])"

definition zStringOptional :: "string \<Rightarrow> jobject \<Rightarrow> string option parsed" where
  "zStringOptional k b =
     (case field b k of None \<Rightarrow> Inr None | Some (JStr s) \<Rightarrow> Inr (Some s)
      | _ \<Rightarrow> Inl [(k, invalid_type)])"

definition zStringNullish :: "string \<Rightarrow> jobject \<Rightarrow> string option parsed" where
  "zStringNullish k b =
     (case field b k of None \<Rightarrow> Inr None | Some JNull \<Rightarrow> Inr None | Some (JStr s) \<Rightarrow> Inr (Some s)
      | _ \<Rightarrow> Inl [(k, invalid_type)])"

definition zBooleanOptional :: "string \<Rightarrow> jobject \<Rightarrow> bool option parsed" where
  "zBooleanOptional k b =
     (case field b k of None \<Rightarrow> Inr None | Some (JBool v) \<Rightarrow> Inr (Some v)
      | _ \<Rightarrow> Inl [(k, invalid_type)])"

definition zBooleanNullish :: "string \<Rightarrow> jobject \<Rightarrow> bool option option parsed" where
  "zBooleanNullish k b =
     (case field b k of None \<Rightarrow> Inr None | Some JNull \<Rightarrow> Inr (Some None)
      | Some (JBool v) \<Rightarrow> Inr (Some (Some v))
      | _ \<Rightarrow> Inl [(k, invalid_type)])"

text \<open>
  The schema of an \<^verbatim>\<open>integer\<close> column is a number that is an integer, at least
  \<open>-2147483648\<close> and at most \<open>2147483647\<close>.
\<close>

definition zInt :: "string \<Rightarrow> int \<Rightarrow> int parsed" where
  "zInt k n =
     (if n < - 2147483648 then Inl [(k, too_small)]
      else if 2147483647 < n then Inl [(k, too_big)]
      else Inr n)"

definition zNumber :: "string \<Rightarrow> jobject \<Rightarrow> int parsed" where
  "zNumber k b = (case field b k of Some (JNum n) \<Rightarrow> zInt k n | _ \<Rightarrow> Inl [(k, invalid_type)])"

definition zNumberNullish :: "string \<Rightarrow> jobject \<Rightarrow> int option parsed" where
  "zNumberNullish k b =
     (case field b k of None \<Rightarrow> Inr None | Some JNull \<Rightarrow> Inr None
      | Some (JNum n) \<Rightarrow> (case zInt k n of Inl issues \<Rightarrow> Inl issues | Inr m \<Rightarrow> Inr (Some m))
      | _ \<Rightarrow> Inl [(k, invalid_type)])"

definition zEnum :: "(string \<Rightarrow> 'e option) \<Rightarrow> string \<Rightarrow> jobject \<Rightarrow> 'e parsed" where
  "zEnum dec k b =
     (case field b k of
        Some (JStr s) \<Rightarrow> (case dec s of Some e \<Rightarrow> Inr e | None \<Rightarrow> Inl [(k, invalid_enum_value)])
      | _ \<Rightarrow> Inl [(k, invalid_type)])"

definition zEnumOptional :: "(string \<Rightarrow> 'e option) \<Rightarrow> string \<Rightarrow> jobject \<Rightarrow> 'e option parsed" where
  "zEnumOptional dec k b =
     (case field b k of
        None \<Rightarrow> Inr None
      | Some (JStr s) \<Rightarrow> (case dec s of Some e \<Rightarrow> Inr (Some e) | None \<Rightarrow> Inl [(k, invalid_enum_value)])
      | _ \<Rightarrow> Inl [(k, invalid_type)])"

definition zEnumNullish :: "(string \<Rightarrow> 'e option) \<Rightarrow> string \<Rightarrow> jobject \<Rightarrow> 'e option parsed" where
  "zEnumNullish dec k b =
     (case field b k of
        None \<Rightarrow> Inr None
      | Some JNull \<Rightarrow> Inr None
      | Some (JStr s) \<Rightarrow> (case dec s of Some e \<Rightarrow> Inr (Some e) | None \<Rightarrow> Inl [(k, invalid_enum_value)])
      | _ \<Rightarrow> Inl [(k, invalid_type)])"

text \<open>
  \<^verbatim>\<open>z.coerce.date()\<close> runs \<^verbatim>\<open>new Date(x)\<close> on whatever the key holds and rejects an
  invalid date. The conversion is the runtime's: it is the parameter \<open>toDate\<close>.
\<close>

definition zCoerceDate :: "(json option \<Rightarrow> timestamp option) \<Rightarrow> string \<Rightarrow> jobject \<Rightarrow> timestamp parsed" where
  "zCoerceDate toDate k b =
     (case toDate (field b k) of Some t \<Rightarrow> Inr t | None \<Rightarrow> Inl [(k, invalid_date)])"

definition marketTypeEnum :: "string \<Rightarrow> marketType option" where
  "marketTypeEnum s =
     (if s = ''local'' then Some Local else if s = ''oversea'' then Some Oversea else None)"

definition segmentEnum :: "string \<Rightarrow> segment option" where
  "segmentEnum s =
     (if s = ''FIT'' then Some FIT else if s = ''Series'' then Some Series
      else if s = ''Group'' then Some Group else if s = ''OTA'' then Some OTA
      else if s = ''Wellness'' then Some Wellness else None)"

definition businessTypeEnum :: "string \<Rightarrow> businessType option" where
  "businessTypeEnum s =
     (if s = ''Tour Operator'' then Some TourOperator
      else if s = ''Travel Agent'' then Some TravelAgent else None)"

definition interactionTypeEnum :: "string \<Rightarrow> interactionType option" where
  "interactionTypeEnum s =
     (if s = ''call'' then Some Call else if s = ''email'' then Some Email
      else if s = ''meeting'' then Some Meeting else if s = ''note'' then Some Note
      else if s = ''other'' then Some Other else None)"

text \<open>
  \<^verbatim>\<open>createInsertSchema(admins).omit({ id, lastLogin, createdAt })\<close>: a \<^verbatim>\<open>text\<close> column is
  a string, whatever it holds; nothing checks the form of an email address.
\<close>

definition insertAdminSchema :: "jobject \<Rightarrow> insertAdmin parsed" where
  "insertAdminSchema b =
     ap (ap (ap (ap (ap (ap
       (Inr (\<lambda>username password fullName email role active.
              \<lparr>ia_username = username, ia_password = password, ia_fullName = fullName,
               ia_email = email, ia_role = role, ia_active = active\<rparr>))
       (zString ''username'' b)) (zString ''password'' b)) (zString ''fullName'' b))
       (zString ''email'' b)) (zStringOptional ''role'' b)) (zBooleanOptional ''active'' b)"

record loginCredentials =
  lc_username :: string
  lc_password :: string

definition loginSchema :: "jobject \<Rightarrow> loginCredentials parsed" where
  "loginSchema b =
     ap (ap (Inr (\<lambda>username password. \<lparr>lc_username = username, lc_password = password\<rparr>))
       (zStringMin 3 ''username'' b)) (zStringMin 6 ''password'' b)"

definition insertClientSchema :: "jobject \<Rightarrow> insertClient parsed" where
  "insertClientSchema b =
     ap (ap (ap (ap (ap (ap (ap (ap (ap (ap (ap (ap (ap
       (Inr (\<lambda>firstName lastName email phone marketType market segment businessType
               headcountName headcountRole headcountEmail if_active createdBy.
              \<lparr>ic_firstName = firstName, ic_lastName = lastName, ic_email = email,
               ic_phone = phone, ic_marketType = marketType, ic_market = market,
               ic_segment = segment, ic_businessType = businessType,
               ic_headcountName = headcountName, ic_headcountRole = headcountRole,
               ic_headcountEmail = headcountEmail, ic_if_active = if_active,
               ic_createdBy = createdBy\<rparr>))
       (zString ''firstName'' b)) (zString ''lastName'' b)) (zString ''email'' b))
       (zString ''phone'' b)) (zEnumOptional marketTypeEnum ''marketType'' b))
       (zStringNullish ''market'' b)) (zEnumNullish segmentEnum ''segment'' b))
       (zEnumNullish businessTypeEnum ''businessType'' b))
       (zStringNullish ''headcountName'' b)) (zStringNullish ''headcountRole'' b))
       (zStringNullish ''headcountEmail'' b)) (zBooleanNullish ''if_active'' b))
       (zNumberNullish ''createdBy'' b)"

definition insertInteractionSchema :: "(json option \<Rightarrow> timestamp option) \<Rightarrow> jobject \<Rightarrow> insertInteraction parsed" where
  "insertInteractionSchema toDate b =
     ap (ap (ap (ap (ap (ap
       (Inr (\<lambda>clientId type title description date createdBy.
              \<lparr>ii_clientId = clientId, ii_type = type, ii_title = title,
               ii_description = description, ii_date = date, ii_createdBy = createdBy\<rparr>))
       (zNumber ''clientId'' b)) (zEnum interactionTypeEnum ''type'' b)) (zString ''title'' b))
       (zString ''description'' b)) (zCoerceDate toDate ''date'' b))
       (zNumberNullish ''createdBy'' b)"

section \<open>Requests and responses (server/routes.ts)\<close>

text \<open>
  A request carries the session's user (passport's \<^verbatim>\<open>req.isAuthenticated()\<close> is
  \<^verbatim>\<open>req.user\<close> being set), the route parameter and the body. A handler ends in
  \<^verbatim>\<open>res.status(n).json(payload)\<close>, or hands an error to \<^verbatim>\<open>next\<close>.
\<close>

record sessionUser =
  u_id :: int
  u_username :: string
  u_role :: string

record 'b request =
  user :: "sessionUser option"
  param :: string
  body :: 'b

record sanitizedAdmin =
  s_id :: int
  s_username :: string
  s_fullName :: string
  s_email :: string
  s_role :: string
  s_active :: bool
  s_lastLogin :: "timestamp option"
  s_createdAt :: timestamp

datatype payload =
    Message string
  | ZodMessage "issue list"
  | UserP sessionUser
  | AdminP sanitizedAdmin
  | ClientP "client option"
  | InteractionP "interaction option"
  | AuditLogsP "auditLog list"

datatype response = Json nat payload | Next error

type_synonym outcome = "response \<times> db"

definition error_message :: "error \<Rightarrow> string" where
  "error_message e =
     (case e of UniqueViolation \<Rightarrow> ''duplicate key value violates unique constraint''
      | ForeignKeyViolation \<Rightarrow> ''insert or update on table violates foreign key constraint''
      | NoValuesToSet \<Rightarrow> ''No values to set''
      | OutOfRange \<Rightarrow> ''value is out of range for type integer'')"

definition isSpace :: "char \<Rightarrow> bool" where
  "isSpace c = (c = CHR '' '' \<or> c = CHR 0x09 \<or> c = CHR 0x0A \<or> c = CHR 0x0B \<or> c = CHR 0x0C \<or> c = CHR 0x0D)"

definition isDigit :: "char \<Rightarrow> bool" where
  "isDigit c = (CHR ''0'' \<le> c \<and> c \<le> CHR ''9'')"

text \<open>
  \<^verbatim>\<open>parseInt(s, 10)\<close>: leading white space (here: the ASCII one), an optional sign, then
  the longest run of digits; \<open>None\<close> is \<^verbatim>\<open>NaN\<close>. The digits are read as an exact integer.
  JavaScript reads them as a double, which is the same number up to \<open>2^53\<close>; beyond it
  the double is a rounded number, still far outside the 32-bit range, and every storage
  call that receives it rejects it as it rejects the exact one.
\<close>

definition parseInt10 :: "string \<Rightarrow> int option" where
  "parseInt10 s =
     (let t = dropWhile isSpace s;
          neg = (case t of [] \<Rightarrow> False | c # _ \<Rightarrow> c = CHR ''-'');
          u = (case t of [] \<Rightarrow> [] | c # r \<Rightarrow> if c = CHR ''-'' \<or> c = CHR ''+'' then r else t);
          ds = takeWhile isDigit u;
          n = foldl (\<lambda>acc c. 10 * acc + (int (of_char c) - 48)) 0 ds
      in if ds = [] then None else Some (if neg then - n else n))"

definition requireAuth :: "'b request \<Rightarrow> db \<Rightarrow> (sessionUser \<Rightarrow> outcome) \<Rightarrow> outcome" where
  "requireAuth req d handler =
     (case user req of
        None \<Rightarrow> (Json 401 (Message ''Unauthorized''), d)
      | Some u \<Rightarrow> handler u)"

definition requireAdmin :: "'b request \<Rightarrow> db \<Rightarrow> (sessionUser \<Rightarrow> outcome) \<Rightarrow> outcome" where
  "requireAdmin req d handler =
     (case user req of
        None \<Rightarrow> (Json 401 (Message ''Unauthorized''), d)
      | Some u \<Rightarrow> if u_role u \<noteq> ''admin'' then (Json 403 (Message ''Forbidden''), d)
                  else handler u)"

text \<open>The helper \<^verbatim>\<open>createAuditLog\<close> of the routes: it writes only when \<^verbatim>\<open>req.user\<close> is set.\<close>

definition createAuditLog :: "'b request \<Rightarrow> string \<Rightarrow> int \<Rightarrow> string \<Rightarrow> string \<Rightarrow> timestamp \<Rightarrow> db \<Rightarrow> unit io" where
  "createAuditLog req entityType entityId action details now d =
     (case user req of
        Some u \<Rightarrow>
          (case storage_createAuditLog
                  \<lparr>il_adminId = Some (u_id u), il_entityType = entityType, il_entityId = entityId,
                   il_action = action, il_details = details\<rparr> now d of
             (Inl e, d1) \<Rightarrow> (Inl e, d1)
           | (Inr _, d1) \<Rightarrow> (Inr (), d1))
      | None \<Rightarrow> (Inr (), d))"

section \<open>Login\<close>

datatype verdict = Authenticated sessionUser | Rejected string

text \<open>The verify callback of the \<^verbatim>\<open>LocalStrategy\<close>; \<open>Rejected m\<close> is \<^verbatim>\<open>done(null, false, { message: m })\<close>.\<close>

definition verify :: "(string \<Rightarrow> string \<Rightarrow> bool) \<Rightarrow> string \<Rightarrow> string \<Rightarrow> timestamp \<Rightarrow> db \<Rightarrow> verdict io" where
  "verify bcompare username password now d =
     (case getAdminByUsername username d of
        None \<Rightarrow> (Inr (Rejected ''Invalid username or password''), d)
      | Some admin \<Rightarrow>
          if \<not> a_active admin then (Inr (Rejected ''Account is disabled''), d)
          else if \<not> validatePassword bcompare password (a_password admin)
          then (Inr (Rejected ''Invalid username or password''), d)
          else (case updateLastLogin (a_id admin) now d of
                  (Inl e, d1) \<Rightarrow> (Inl e, d1)
                | (Inr _, d1) \<Rightarrow>
                    (Inr (Authenticated \<lparr>u_id = a_id admin, u_username = a_username admin,
                                         u_role = a_role admin\<rparr>), d1)))"

text \<open>
  \<^verbatim>\<open>POST /api/auth/login\<close>. The schema has made both credentials non-empty strings, so
  passport-local always reaches the verify callback.
\<close>

definition post_api_auth_login :: "(string \<Rightarrow> string \<Rightarrow> bool) \<Rightarrow> jobject request \<Rightarrow> timestamp \<Rightarrow> db \<Rightarrow> outcome" where
  "post_api_auth_login bcompare req now d =
     (case loginSchema (body req) of
        Inl issues \<Rightarrow> (Json 400 (ZodMessage issues), d)
      | Inr cred \<Rightarrow>
          (case verify bcompare (lc_username cred) (lc_password cred) now d of
             (Inl err, d1) \<Rightarrow> (Next err, d1)
           | (Inr (Rejected message), d1) \<Rightarrow> (Json 401 (Message message), d1)
           | (Inr (Authenticated u), d1) \<Rightarrow> (Json 200 (UserP u), d1)))"

section \<open>Admin routes\<close>

definition sanitize :: "admin \<Rightarrow> sanitizedAdmin" where
  "sanitize a =
     \<lparr>s_id = a_id a, s_username = a_username a, s_fullName = a_fullName a, s_email = a_email a,
      s_role = a_role a, s_active = a_active a, s_lastLogin = a_lastLogin a,
      s_createdAt = a_createdAt a\<rparr>"

text \<open>
  In the mutating routes \<open>tw\<close> is the time the data write reads (\<^verbatim>\<open>new Date()\<close>,
  \<^verbatim>\<open>defaultNow()\<close>) and \<open>ta\<close> the time the audit insert reads.
\<close>

definition post_api_admins :: "(string \<Rightarrow> nat \<Rightarrow> string) \<Rightarrow> jobject request \<Rightarrow> timestamp \<Rightarrow> timestamp \<Rightarrow> db \<Rightarrow> outcome" where
  "post_api_admins bhash req tw ta d =
     requireAdmin req d (\<lambda>_.
       case insertAdminSchema (body req) of
         Inl issues \<Rightarrow> (Json 400 (ZodMessage issues), d)
       | Inr adminData \<Rightarrow>
           (case createAdmin bhash adminData tw d of
              (Inl err, d1) \<Rightarrow> (Next err, d1)
            | (Inr admin, d1) \<Rightarrow>
                (case createAuditLog req ''admin'' (a_id admin) ''create''
                        (''Admin '' @ a_username admin @ '' created'') ta d1 of
                   (Inl err, d2) \<Rightarrow> (Next err, d2)
                 | (Inr _, d2) \<Rightarrow> (Json 201 (AdminP (sanitize admin)), d2))))"

text \<open>\<^verbatim>\<open>PUT /api/admins/:id\<close>: \<^verbatim>\<open>const adminData = req.body\<close>, as it comes.\<close>

definition put_api_admins_id :: "(string \<Rightarrow> nat \<Rightarrow> string) \<Rightarrow> partialAdmin request \<Rightarrow> timestamp \<Rightarrow> db \<Rightarrow> outcome" where
  "put_api_admins_id bhash req ta d =
     requireAdmin req d (\<lambda>_.
       case parseInt10 (param req) of
         None \<Rightarrow> (Json 400 (Message ''Invalid ID''), d)
       | Some ident \<Rightarrow>
           (case updateAdmin bhash ident (body req) d of
              (Inl err, d1) \<Rightarrow> (Next err, d1)
            | (Inr None, d1) \<Rightarrow> (Json 404 (Message ''Admin not found''), d1)
            | (Inr (Some updatedAdmin), d1) \<Rightarrow>
                (case createAuditLog req ''admin'' ident ''update''
                        (''Admin '' @ a_username updatedAdmin @ '' updated'') ta d1 of
                   (Inl err, d2) \<Rightarrow> (Next err, d2)
                 | (Inr _, d2) \<Rightarrow> (Json 200 (AdminP (sanitize updatedAdmin)), d2))))"

section \<open>Client routes\<close>

definition stale_schema_text :: string where
  \<open>stale_schema_text = ''column "address" of relation "clients" does not exist''\<close>

text \<open>
  \<^verbatim>\<open>POST /api/clients\<close>. Its \<^verbatim>\<open>catch\<close> answers every error that is not a \<^verbatim>\<open>ZodError\<close>
  itself: 400 when the message names the missing \<^verbatim>\<open>address\<close> column, 500 with the
  message otherwise.
\<close>

definition post_api_clients_catch :: "error \<Rightarrow> response" where
  "post_api_clients_catch err =
     (if sublist stale_schema_text (error_message err)
      then Json 400 (Message ''The client schema has changed. Please refresh the page and try again.'')
      else Json 500 (Message (error_message err)))"

definition post_api_clients :: "jobject request \<Rightarrow> timestamp \<Rightarrow> timestamp \<Rightarrow> db \<Rightarrow> outcome" where
  "post_api_clients req tw ta d =
     requireAuth req d (\<lambda>u.
       case insertClientSchema (body req) of
         Inl issues \<Rightarrow> (Json 400 (ZodMessage issues), d)
       | Inr clientData0 \<Rightarrow>
           (let clientData = clientData0\<lparr>ic_createdBy := Some (u_id u)\<rparr>
            in case createClient clientData tw d of
                 (Inl err, d1) \<Rightarrow> (post_api_clients_catch err, d1)
               | (Inr client, d1) \<Rightarrow>
                   (case createAuditLog req ''client'' (c_id client) ''create''
                           (''Client '' @ c_firstName client @ '' '' @ c_lastName client @ '' created'')
                           ta d1 of
                      (Inl err, d2) \<Rightarrow> (post_api_clients_catch err, d2)
                    | (Inr _, d2) \<Rightarrow> (Json 201 (ClientP (Some client)), d2))))"

definition put_api_clients_id :: "partialClient request \<Rightarrow> timestamp \<Rightarrow> timestamp \<Rightarrow> db \<Rightarrow> outcome" where
  "put_api_clients_id req tw ta d =
     requireAuth req d (\<lambda>_.
       case parseInt10 (param req) of
         None \<Rightarrow> (Json 400 (Message ''Invalid ID''), d)
       | Some ident \<Rightarrow>
           (case getClient ident d of
              Inl err \<Rightarrow> (Next err, d)
            | Inr None \<Rightarrow> (Json 404 (Message ''Client not found''), d)
            | Inr (Some existingClient) \<Rightarrow>
                (case updateClient ident (body req) tw d of
                   (Inl err, d1) \<Rightarrow> (Next err, d1)
                 | (Inr updatedClient, d1) \<Rightarrow>
                     (case createAuditLog req ''client'' ident ''update''
                             (''Client '' @ c_firstName existingClient @ '' ''
                                @ c_lastName existingClient @ '' updated'') ta d1 of
                        (Inl err, d2) \<Rightarrow> (Next err, d2)
                      | (Inr _, d2) \<Rightarrow> (Json 200 (ClientP updatedClient), d2)))))"

definition delete_api_clients_id :: "unit request \<Rightarrow> timestamp \<Rightarrow> db \<Rightarrow> outcome" where
  "delete_api_clients_id req ta d =
     requireAuth req d (\<lambda>_.
       case parseInt10 (param req) of
         None \<Rightarrow> (Json 400 (Message ''Invalid ID''), d)
       | Some ident \<Rightarrow>
           (case getClient ident d of
              Inl err \<Rightarrow> (Next err, d)
            | Inr None \<Rightarrow> (Json 404 (Message ''Client not found''), d)
            | Inr (Some client) \<Rightarrow>
                (case deleteClient ident d of
                   (Inl err, d1) \<Rightarrow> (Next err, d1)
                 | (Inr deleted, d1) \<Rightarrow>
                     if deleted then
                       (case createAuditLog req ''client'' ident ''delete''
                               (''Client '' @ c_firstName client @ '' '' @ c_lastName client
                                  @ '' deleted'') ta d1 of
                          (Inl err, d2) \<Rightarrow> (Next err, d2)
                        | (Inr _, d2) \<Rightarrow> (Json 200 (Message ''Client deleted successfully''), d2))
                     else (Json 500 (Message ''Failed to delete client''), d1))))"

section \<open>Interaction routes\<close>

definition post_api_clients_interactions :: "(json option \<Rightarrow> timestamp option) \<Rightarrow> jobject request \<Rightarrow> timestamp \<Rightarrow> timestamp \<Rightarrow> db \<Rightarrow> outcome" where
  "post_api_clients_interactions toDate req tw ta d =
     requireAuth req d (\<lambda>u.
       case parseInt10 (param req) of
         None \<Rightarrow> (Json 400 (Message ''Invalid client ID''), d)
       | Some clientId \<Rightarrow>
           (case getClient clientId d of
              Inl err \<Rightarrow> (Next err, d)
            | Inr None \<Rightarrow> (Json 404 (Message ''Client not found''), d)
            | Inr (Some client) \<Rightarrow>
                (case insertInteractionSchema toDate
                        (body req @ [(''clientId'', JNum clientId), (''createdBy'', JNum (u_id u))]) of
                   Inl issues \<Rightarrow> (Json 400 (ZodMessage issues), d)
                 | Inr interactionData \<Rightarrow>
                     (case createInteraction interactionData tw d of
                        (Inl err, d1) \<Rightarrow> (Next err, d1)
                      | (Inr interaction, d1) \<Rightarrow>
                          (case createAuditLog req ''interaction'' (i_id interaction) ''create''
                                  (''Interaction created for client '' @ c_firstName client @ '' ''
                                     @ c_lastName client) ta d1 of
                             (Inl err, d2) \<Rightarrow> (Next err, d2)
                           | (Inr _, d2) \<Rightarrow> (Json 201 (InteractionP (Some interaction)), d2))))))"

definition put_api_interactions_id :: "partialInteraction request \<Rightarrow> timestamp \<Rightarrow> timestamp \<Rightarrow> db \<Rightarrow> outcome" where
  "put_api_interactions_id req tw ta d =
     requireAuth req d (\<lambda>_.
       case parseInt10 (param req) of
         None \<Rightarrow> (Json 400 (Message ''Invalid ID''), d)
       | Some ident \<Rightarrow>
           (case getInteraction ident d of
              Inl err \<Rightarrow> (Next err, d)
            | Inr None \<Rightarrow> (Json 404 (Message ''Interaction not found''), d)
            | Inr (Some existingInteraction) \<Rightarrow>
                (case updateInteraction ident (body req) tw d of
                   (Inl err, d1) \<Rightarrow> (Next err, d1)
                 | (Inr updatedInteraction, d1) \<Rightarrow>
                     (case createAuditLog req ''interaction'' ident ''update''
                             (''Interaction '' @ i_title existingInteraction @ '' updated'') ta d1 of
                        (Inl err, d2) \<Rightarrow> (Next err, d2)
                      | (Inr _, d2) \<Rightarrow> (Json 200 (InteractionP updatedInteraction), d2)))))"

definition delete_api_interactions_id :: "unit request \<Rightarrow> timestamp \<Rightarrow> db \<Rightarrow> outcome" where
  "delete_api_interactions_id req ta d =
     requireAuth req d (\<lambda>_.
       case parseInt10 (param req) of
         None \<Rightarrow> (Json 400 (Message ''Invalid ID''), d)
       | Some ident \<Rightarrow>
           (case getInteraction ident d of
              Inl err \<Rightarrow> (Next err, d)
            | Inr None \<Rightarrow> (Json 404 (Message ''Interaction not found''), d)
            | Inr (Some interaction) \<Rightarrow>
                (case deleteInteraction ident d of
                   (Inl err, d1) \<Rightarrow> (Next err, d1)
                 | (Inr deleted, d1) \<Rightarrow>
                     if deleted then
                       (case createAuditLog req ''interaction'' ident ''delete''
                               (''Interaction '' @ i_title interaction @ '' deleted'') ta d1 of
                          (Inl err, d2) \<Rightarrow> (Next err, d2)
                        | (Inr _, d2) \<Rightarrow> (Json 200 (Message ''Interaction deleted successfully''), d2))
                     else (Json 500 (Message ''Failed to delete interaction''), d1))))"

section \<open>Audit log routes and the default admin\<close>

definition get_api_clients_audit_logs :: "unit request \<Rightarrow> db \<Rightarrow> outcome" where
  "get_api_clients_audit_logs req d =
     requireAuth req d (\<lambda>_.
       case parseInt10 (param req) of
         None \<Rightarrow> (Json 400 (Message ''Invalid client ID''), d)
       | Some clientId \<Rightarrow>
           (case getClient clientId d of
              Inl err \<Rightarrow> (Next err, d)
            | Inr None \<Rightarrow> (Json 404 (Message ''Client not found''), d)
            | Inr (Some client) \<Rightarrow>
                (case getClientAuditLogs clientId d of
                   Inl err \<Rightarrow> (Next err, d)
                 | Inr logs \<Rightarrow> (Json 200 (AuditLogsP logs), d))))"

datatype console = ConsoleLog string | ConsoleError string error

text \<open>
  The end of \<^verbatim>\<open>registerRoutes\<close>: create a default admin if none exists. The \<^verbatim>\<open>catch\<close>
  only prints.
\<close>

definition defaultAdmin :: insertAdmin where
  "defaultAdmin =
     \<lparr>ia_username = ''admin'', ia_password = ''admin123'', ia_fullName = ''System Administrator'',
      ia_email = ''admin@travelcrm.com'', ia_role = Some ''admin'', ia_active = Some True\<rparr>"

definition seedDefaultAdmin :: "(string \<Rightarrow> nat \<Rightarrow> string) \<Rightarrow> timestamp \<Rightarrow> db \<Rightarrow> console list \<times> db" where
  "seedDefaultAdmin bhash now d =
     (let admins = listAdmins d
      in if length admins = 0 then
           (case createAdmin bhash defaultAdmin now d of
              (Inl err, d1) \<Rightarrow> ([ConsoleError ''Failed to create default admin:'' err], d1)
            | (Inr _, d1) \<Rightarrow> ([ConsoleLog ''Default admin account created''], d1))
         else ([], d))"

section \<open>An example store\<close>

text \<open>
  Two admins (the second one disabled), two clients with one interaction each, no
  audit row yet; and a stand-in for bcrypt that prefixes the plaintext.
\<close>

definition ex_hash :: "string \<Rightarrow> nat \<Rightarrow> string" where
  "ex_hash s rounds = ''$2b$'' @ s"

definition ex_compare :: "string \<Rightarrow> string \<Rightarrow> bool" where
  "ex_compare plain hashed = (hashed = ''$2b$'' @ plain)"

definition ex_root :: admin where
  "ex_root = \<lparr>a_id = 1, a_username = ''admin'', a_password = ''$2b$admin123'',
     a_fullName = ''System Administrator'', a_email = ''admin@travelcrm.com'', a_role = ''admin'',
     a_active = True, a_lastLogin = None, a_createdAt = 1000\<rparr>"

definition ex_carol :: admin where
  "ex_carol = \<lparr>a_id = 2, a_username = ''carol'', a_password = ''$2b$secret99'',
     a_fullName = ''Carol Jones'', a_email = ''carol@travelcrm.com'', a_role = ''user'',
     a_active = False, a_lastLogin = None, a_createdAt = 2000\<rparr>"

definition ex_john :: client where
  "ex_john = \<lparr>c_id = 1, c_firstName = ''John'', c_lastName = ''Smith'', c_email = ''jsmith@x.com'',
     c_phone = ''5550100'', c_marketType = Local, c_market = None, c_segment = Some FIT,
     c_businessType = None, c_headcountName = None, c_headcountRole = None,
     c_headcountEmail = None, c_if_active = Some True, c_createdAt = 3000, c_updatedAt = 3000,
     c_createdBy = Some 1\<rparr>"

definition ex_mary :: client where
  "ex_mary = \<lparr>c_id = 2, c_firstName = ''Mary'', c_lastName = ''Lee'', c_email = ''mary@y.org'',
     c_phone = ''5550199'', c_marketType = Oversea, c_market = Some ''Japan'', c_segment = None,
     c_businessType = Some TravelAgent, c_headcountName = None, c_headcountRole = None,
     c_headcountEmail = None, c_if_active = Some True, c_createdAt = 4000, c_updatedAt = 4000,
     c_createdBy = Some 1\<rparr>"

definition ex_visit :: interaction where
  "ex_visit = \<lparr>i_id = 1, i_clientId = 1, i_type = Meeting, i_title = ''Visit'',
     i_description = ''First visit'', i_date = 5000, i_createdAt = 5000, i_updatedAt = 5000,
     i_createdBy = Some 1\<rparr>"

definition ex_ring :: interaction where
  "ex_ring = \<lparr>i_id = 2, i_clientId = 2, i_type = Call, i_title = ''Ring'',
     i_description = ''Follow up'', i_date = 6000, i_createdAt = 6000, i_updatedAt = 6000,
     i_createdBy = Some 1\<rparr>"

definition ex_db :: db where
  "ex_db = \<lparr>admins = [ex_root, ex_carol], clients = [ex_john, ex_mary],
     interactions = [ex_visit, ex_ring], auditLogs = [],
     admins_id_seq = 2, clients_id_seq = 2, interactions_id_seq = 2, audit_logs_id_seq = 0\<rparr>"

definition empty_db :: db where
  "empty_db = \<lparr>admins = [], clients = [], interactions = [], auditLogs = [],
     admins_id_seq = 0, clients_id_seq = 0, interactions_id_seq = 0, audit_logs_id_seq = 0\<rparr>"

definition ex_session :: sessionUser where
  "ex_session = \<lparr>u_id = 1, u_username = ''admin'', u_role = ''admin''\<rparr>"

definition ex_req :: "'b \<Rightarrow> string \<Rightarrow> 'b request" where
  "ex_req b p = \<lparr>user = Some ex_session, param = p, body = b\<rparr>"

definition ex_login :: "string \<Rightarrow> string \<Rightarrow> jobject request" where
  "ex_login username password =
     \<lparr>user = None, param = [], body = [(''username'', JStr username), (''password'', JStr password)]\<rparr>"

definition ex_db_deleted :: db where
  "ex_db_deleted = snd (delete_api_clients_id (ex_req () ''1'') 7000 ex_db)"

definition noAdminData :: partialAdmin where
  "noAdminData = \<lparr>pa_id = None, pa_username = None, pa_password = None, pa_fullName = None,
     pa_email = None, pa_role = None, pa_active = None, pa_lastLogin = None, pa_createdAt = None\<rparr>"

text \<open>
  The causes of a failed login, in the words of the specification: the username is
  absent, the account is inactive, the password does not match the stored hash.
\<close>

definition username_absent :: "loginCredentials \<Rightarrow> db \<Rightarrow> bool" where
  "username_absent cred d = (getAdminByUsername (lc_username cred) d = None)"

definition account_inactive :: "loginCredentials \<Rightarrow> db \<Rightarrow> bool" where
  "account_inactive cred d =
     (case getAdminByUsername (lc_username cred) d of None \<Rightarrow> False | Some a \<Rightarrow> \<not> a_active a)"

definition hash_mismatch :: "(string \<Rightarrow> string \<Rightarrow> bool) \<Rightarrow> loginCredentials \<Rightarrow> db \<Rightarrow> bool" where
  "hash_mismatch bcompare cred d =
     (case getAdminByUsername (lc_username cred) d of
        None \<Rightarrow> False
      | Some a \<Rightarrow> \<not> bcompare (lc_password cred) (a_password a))"

text \<open>
  The search in the words of the specification: the query is a substring, without
  regard to case, of the full name, of the email or of the phone.
\<close>

definition substring_ci :: "string \<Rightarrow> string \<Rightarrow> bool" where
  "substring_ci query s = sublist (map lower_char query) (map lower_char s)"

definition matches_query :: "string \<Rightarrow> client \<Rightarrow> bool" where
  "matches_query query c =
     (substring_ci query (c_firstName c @ '' '' @ c_lastName c)
      \<or> substring_ci query (c_email c)
      \<or> substring_ci query (c_phone c))"

definition like_special :: "char \<Rightarrow> bool" where
  "like_special c = (c = CHR ''%'' \<or> c = CHR ''_'' \<or> c = CHR 0x5C)"

definition noClientData :: partialClient where
  "noClientData = \<lparr>pc_id = None, pc_firstName = None, pc_lastName = None, pc_email = None,
     pc_phone = None, pc_marketType = None, pc_market = None, pc_segment = None,
     pc_businessType = None, pc_headcountName = None, pc_headcountRole = None,
     pc_headcountEmail = None, pc_if_active = None, pc_createdAt = None, pc_updatedAt = None,
     pc_createdBy = None\<rparr>"

definition noInteractionData :: partialInteraction where
  "noInteractionData = \<lparr>pi_id = None, pi_clientId = None, pi_type = None, pi_title = None,
     pi_description = None, pi_date = None, pi_createdAt = None, pi_updatedAt = None,
     pi_createdBy = None\<rparr>"





definition issues_of :: "'a parsed \<Rightarrow> issue list" where
  "issues_of r = (case r of Inl issues \<Rightarrow> issues | Inr _ \<Rightarrow> [])"

text \<open>
  A body holds a value of the wrong type under a key: the key is present and its value is
  not of the kind \<open>ok\<close>. A key whose schema is nullable may also hold \<open>null\<close>.
\<close>

definition is_JStr :: "json \<Rightarrow> bool" where
  "is_JStr v = (case v of JStr _ \<Rightarrow> True | _ \<Rightarrow> False)"

definition is_JBool :: "json \<Rightarrow> bool" where
  "is_JBool v = (case v of JBool _ \<Rightarrow> True | _ \<Rightarrow> False)"

definition is_JNum :: "json \<Rightarrow> bool" where
  "is_JNum v = (case v of JNum _ \<Rightarrow> True | _ \<Rightarrow> False)"

definition wrong_type :: "(json \<Rightarrow> bool) \<Rightarrow> jobject \<Rightarrow> string \<Rightarrow> bool" where
  "wrong_type ok b k = (case field b k of None \<Rightarrow> False | Some v \<Rightarrow> \<not> ok v)"

definition wrong_type_nullable :: "(json \<Rightarrow> bool) \<Rightarrow> jobject \<Rightarrow> string \<Rightarrow> bool" where
  "wrong_type_nullable ok b k =
     (case field b k of None \<Rightarrow> False | Some v \<Rightarrow> v \<noteq> JNull \<and> \<not> ok v)"

definition ex_mistyped_body :: jobject where
  "ex_mistyped_body = [(''firstName'', JNum 7), (''market'', JBool True),
     (''if_active'', JStr ''yes''), (''createdBy'', JStr ''root''), (''role'', JNull),
     (''active'', JNum 1), (''title'', JOther), (''clientId'', JStr ''2'')]"

definition ex_role_body :: jobject where
  "ex_role_body = [(''username'', JStr ''erin''), (''password'', JStr ''pw123456''),
     (''fullName'', JStr ''Erin Roe''), (''email'', JStr ''erin@x.com''),
     (''role'', JStr ''superuser'')]"

definition ex_client_body :: jobject where
  "ex_client_body = [(''firstName'', JStr ''Ann''), (''lastName'', JStr ''Bell''),
     (''email'', JStr ''not-an-email''), (''phone'', JStr ''5550123'')]"

definition ex_ann :: client where
  "ex_ann = \<lparr>c_id = 3, c_firstName = ''Ann'', c_lastName = ''Bell'', c_email = ''not-an-email'',
     c_phone = ''5550123'', c_marketType = Local, c_market = None, c_segment = None,
     c_businessType = None, c_headcountName = None, c_headcountRole = None,
     c_headcountEmail = None, c_if_active = Some True, c_createdAt = 9000, c_updatedAt = 9000,
     c_createdBy = Some 1\<rparr>"

definition ex_toDate :: "json option \<Rightarrow> timestamp option" where
  "ex_toDate j = (case j of Some (JNum n) \<Rightarrow> Some n | _ \<Rightarrow> None)"

definition ex_bad_body :: jobject where
  "ex_bad_body = [(''lastName'', JStr ''Bell''), (''email'', JStr ''ann@x.com''),
     (''phone'', JStr ''5550123''), (''marketType'', JStr ''mars''), (''type'', JStr ''fax'')]"

definition ex_stale_user :: sessionUser where
  "ex_stale_user = \<lparr>u_id = 7, u_username = ''dave'', u_role = ''admin''\<rparr>"

definition ex_stale_req :: "'b \<Rightarrow> string \<Rightarrow> 'b request" where
  "ex_stale_req b p = \<lparr>user = Some ex_stale_user, param = p, body = b\<rparr>"

text \<open>A success response: status 2xx.\<close>

definition succeeded :: "response \<Rightarrow> bool" where
  "succeeded r = (case r of Json status _ \<Rightarrow> 200 \<le> status \<and> status < 300 | Next _ \<Rightarrow> False)"

text \<open>
  Between the store \<open>d1\<close> left by the data write and the store \<open>d'\<close> at the response
  there is exactly one more audit row, the last one, for this user, entity and action,
  stamped \<open>t\<close>; the other tables are as the data write left them.
\<close>

definition one_audit_row :: "db \<Rightarrow> db \<Rightarrow> sessionUser \<Rightarrow> string \<Rightarrow> int \<Rightarrow> string \<Rightarrow> timestamp \<Rightarrow> bool" where
  "one_audit_row d1 d' u entityType entityId action t =
     (\<exists>l. auditLogs d' = auditLogs d1 @ [l]
          \<and> l_adminId l = Some (u_id u) \<and> l_entityType l = entityType
          \<and> l_entityId l = entityId \<and> l_action l = action \<and> l_createdAt l = t
          \<and> admins d' = admins d1 \<and> clients d' = clients d1
          \<and> interactions d' = interactions d1)"

text \<open>The audit insert of user \<open>u\<close> at time \<open>t\<close> is rejected on the store \<open>d1\<close>, with error \<open>e\<close>.\<close>

definition audit_rejects :: "sessionUser \<Rightarrow> timestamp \<Rightarrow> db \<Rightarrow> error \<Rightarrow> bool" where
  "audit_rejects u t d1 e =
     (\<forall>entityType entityId action details.
        fst (storage_createAuditLog
               \<lparr>il_adminId = Some (u_id u), il_entityType = entityType, il_entityId = entityId,
                il_action = action, il_details = details\<rparr> t d1) = Inl e)"

definition audit_seq_advanced :: "db \<Rightarrow> db" where
  "audit_seq_advanced d1 = d1\<lparr>audit_logs_id_seq := audit_logs_id_seq d1 + 1\<rparr>"

definition ex_old_log :: auditLog where
  "ex_old_log = \<lparr>l_id = 1, l_adminId = Some 1, l_entityType = ''client'', l_entityId = 2,
     l_action = ''create'', l_details = ''Client Mary Lee created'', l_createdAt = 4000\<rparr>"

definition ex_db_clash :: db where
  "ex_db_clash = ex_db\<lparr>auditLogs := [ex_old_log]\<rparr>"

definition ex_admin_body :: jobject where
  "ex_admin_body = [(''username'', JStr ''erin''), (''password'', JStr ''pw123456''),
     (''fullName'', JStr ''Erin Roe''), (''email'', JStr ''erin@x.com'')]"

definition ex_erin :: admin where
  "ex_erin = \<lparr>a_id = 3, a_username = ''erin'', a_password = ''$2b$pw123456'',
     a_fullName = ''Erin Roe'', a_email = ''erin@x.com'', a_role = ''user'', a_active = True,
     a_lastLogin = None, a_createdAt = 9000\<rparr>"

definition ex_interaction_body :: jobject where
  "ex_interaction_body = [(''type'', JStr ''call''), (''title'', JStr ''Hello''),
     (''description'', JStr ''Intro''), (''date'', JNum 8000)]"

definition ex_hello :: interaction where
  "ex_hello = \<lparr>i_id = 3, i_clientId = 2, i_type = Call, i_title = ''Hello'',
     i_description = ''Intro'', i_date = 8000, i_createdAt = 9000, i_updatedAt = 9000,
     i_createdBy = Some 1\<rparr>"

section \<open>Cascade delete\<close>

lemmas ex_defs = ex_db_def ex_root_def ex_carol_def ex_john_def ex_mary_def ex_visit_def
  ex_ring_def empty_db_def ex_session_def ex_hash_def ex_compare_def

lemmas range_defs = int4_def int4_opt_def int4_nullable_def

lemma find_filter_neq: "find (\<lambda>x. f x = k) (filter (\<lambda>x. f x \<noteq> k) xs) = None"
  by (induction xs) auto




lemma getClient_Some_mem:
  "getClient ident d = Inr (Some c) \<Longrightarrow> c \<in> set (clients d) \<and> c_id c = ident \<and> int4 ident"
  unfolding getClient_def by (auto simp: find_Some_iff split: if_splits)

text \<open>
  C4. Deleting an existing client resolves to \<open>True\<close> and, in the one statement, removes
  the client row and every interaction whose \<open>clientId\<close> is that id (and nothing else);
  afterwards \<open>getClient\<close> finds no row and \<open>listInteractionsByClient\<close> is empty.
\<close>

theorem deleteClient_cascade:
  assumes "getClient ident d = Inr (Some c)"
  shows "\<exists>d'. deleteClient ident d = (Inr True, d')
           \<and> getClient ident d' = Inr None
           \<and> listInteractionsByClient ident d' = Inr []
           \<and> clients d' = filter (\<lambda>x. c_id x \<noteq> ident) (clients d)
           \<and> interactions d' = filter (\<lambda>i. i_clientId i \<noteq> ident) (interactions d)
           \<and> admins d' = admins d \<and> auditLogs d' = auditLogs d"
proof -
  from assms have mem: "c \<in> set (clients d)" and cid: "c_id c = ident" and rng: "int4 ident"
    using getClient_Some_mem by blast+
  let ?result = "filter (\<lambda>x. c_id x = ident) (clients d)"
  have ne: "?result \<noteq> []" using mem cid by (auto simp: filter_empty_conv)
  have img: "c_id ` set ?result = {ident}" using mem cid by auto
  define d' where "d' = d\<lparr>clients := filter (\<lambda>x. c_id x \<noteq> ident) (clients d),
            interactions := filter (\<lambda>i. i_clientId i \<noteq> ident) (interactions d)\<rparr>"
  have del: "deleteClient ident d = (Inr True, d')"
    using ne rng unfolding deleteClient_def Let_def d'_def img by simp
  have g: "getClient ident d' = Inr None"
    unfolding getClient_def d'_def using rng by (simp add: find_filter_neq)
  have l: "listInteractionsByClient ident d' = Inr []"
    unfolding listInteractionsByClient_def d'_def using rng by (simp add: filter_empty_conv)
  show ?thesis using del g l unfolding d'_def by simp
qed

theorem deleteClient_cascade_witness:
  "getClient 1 ex_db = Inr (Some ex_john)
   \<and> (\<exists>d'. deleteClient 1 ex_db = (Inr True, d')
           \<and> getClient 1 d' = Inr None
           \<and> listInteractionsByClient 1 d' = Inr []
           \<and> clients d' = filter (\<lambda>x. c_id x \<noteq> 1) (clients ex_db)
           \<and> interactions d' = filter (\<lambda>i. i_clientId i \<noteq> 1) (interactions ex_db)
           \<and> admins d' = admins ex_db \<and> auditLogs d' = auditLogs ex_db)"
proof -
  have h: "getClient 1 ex_db = Inr (Some ex_john)"
    by (simp add: getClient_def ex_defs range_defs)
  show ?thesis using h deleteClient_cascade [OF h] by simp
qed

section \<open>The audit trail of a missing client\<close>

lemma ex_db_deleted_eq:
  "ex_db_deleted = ex_db\<lparr>clients := [ex_mary], interactions := [ex_ring],
      auditLogs := [\<lparr>l_id = 1, l_adminId = Some 1, l_entityType = ''client'', l_entityId = 1,
                     l_action = ''delete'', l_details = ''Client John Smith deleted'',
                     l_createdAt = 7000\<rparr>],
      audit_logs_id_seq := 1\<rparr>"
  by (simp add: ex_db_deleted_def delete_api_clients_id_def requireAuth_def ex_req_def
      parseInt10_def isSpace_def isDigit_def getClient_def deleteClient_def createAuditLog_def
      storage_createAuditLog_def unique_ok_def admin_ref_ok_def ex_defs range_defs Let_def)

text \<open>
  C10, as amended. For a client id that is a 32-bit integer and has no client row,
  \<^verbatim>\<open>GET /api/clients/:clientId/audit-logs\<close> answers 404 and returns no audit row, whatever
  audit rows the store holds for that id; the witness is the store left by deleting
  client 1, whose delete record exists and is not served. For an id outside that range
  the lookup of the client is rejected, and the route hands the error to \<^verbatim>\<open>next\<close>.
\<close>

theorem audit_logs_of_missing_client:
  assumes "user req = Some u" and "parseInt10 (param req) = Some clientId"
  shows "(int4 clientId \<and> clientId \<notin> c_id ` set (clients d) \<longrightarrow>
            get_api_clients_audit_logs req d = (Json 404 (Message ''Client not found''), d))
         \<and> (\<not> int4 clientId \<longrightarrow> get_api_clients_audit_logs req d = (Next OutOfRange, d))"
proof (intro conjI impI)
  assume "int4 clientId \<and> clientId \<notin> c_id ` set (clients d)"
  then have "getClient clientId d = Inr None"
    by (auto simp: getClient_def find_None_iff)
  with assms show "get_api_clients_audit_logs req d = (Json 404 (Message ''Client not found''), d)"
    by (simp add: get_api_clients_audit_logs_def requireAuth_def)
next
  assume "\<not> int4 clientId"
  then have "getClient clientId d = Inl OutOfRange"
    by (simp add: getClient_def)
  with assms show "get_api_clients_audit_logs req d = (Next OutOfRange, d)"
    by (simp add: get_api_clients_audit_logs_def requireAuth_def)
qed

lemma ex_parse_big: "parseInt10 ''2147483648'' = Some 2147483648"
  by (simp add: parseInt10_def isSpace_def isDigit_def)

theorem audit_logs_of_missing_client_witness:
  "user (ex_req () ''1'') = Some ex_session \<and> parseInt10 (param (ex_req () ''1'')) = Some 1
   \<and> int4 1 \<and> 1 \<notin> c_id ` set (clients ex_db_deleted)
   \<and> getClientAuditLogs 1 ex_db_deleted
       = Inr [\<lparr>l_id = 1, l_adminId = Some 1, l_entityType = ''client'', l_entityId = 1,
               l_action = ''delete'', l_details = ''Client John Smith deleted'',
               l_createdAt = 7000\<rparr>]
   \<and> get_api_clients_audit_logs (ex_req () ''1'') ex_db_deleted
       = (Json 404 (Message ''Client not found''), ex_db_deleted)
   \<and> user (ex_req () ''2147483648'') = Some ex_session
   \<and> parseInt10 (param (ex_req () ''2147483648'')) = Some 2147483648
   \<and> \<not> int4 2147483648
   \<and> get_api_clients_audit_logs (ex_req () ''2147483648'') ex_db_deleted
       = (Next OutOfRange, ex_db_deleted)"
proof -
  have u: "user (ex_req () ''1'') = Some ex_session" by (simp add: ex_req_def)
  have p: "parseInt10 (param (ex_req () ''1'')) = Some 1"
    by (simp add: ex_req_def parseInt10_def isSpace_def isDigit_def)
  have g: "int4 1 \<and> 1 \<notin> c_id ` set (clients ex_db_deleted)"
    by (simp add: ex_db_deleted_eq ex_defs range_defs)
  have a: "getClientAuditLogs 1 ex_db_deleted
       = Inr [\<lparr>l_id = 1, l_adminId = Some 1, l_entityType = ''client'', l_entityId = 1,
               l_action = ''delete'', l_details = ''Client John Smith deleted'',
               l_createdAt = 7000\<rparr>]"
    by (simp add: ex_db_deleted_eq getClientAuditLogs_def ex_defs range_defs)
  have u': "user (ex_req () ''2147483648'') = Some ex_session" by (simp add: ex_req_def)
  have p': "parseInt10 (param (ex_req () ''2147483648'')) = Some 2147483648"
    by (simp add: ex_req_def ex_parse_big)
  have g': "\<not> int4 2147483648" by (simp add: int4_def)
  show ?thesis
    using u p g a u' p' g'
      audit_logs_of_missing_client [OF u p, of ex_db_deleted]
      audit_logs_of_missing_client [OF u' p', of ex_db_deleted]
    by simp
qed

text \<open>
  The id \<open>2147483648\<close> has no client row, and the route does not answer 404: the lookup
  is rejected, and the error goes to \<^verbatim>\<open>next\<close>.
\<close>

theorem missing_client_out_of_range_counterexample:
  "parseInt10 ''2147483648'' = Some 2147483648
   \<and> 2147483648 \<notin> c_id ` set (clients ex_db)
   \<and> get_api_clients_audit_logs (ex_req () ''2147483648'') ex_db = (Next OutOfRange, ex_db)"
  by (simp add: ex_parse_big get_api_clients_audit_logs_def requireAuth_def ex_req_def
      getClient_def ex_defs range_defs)

section \<open>The default admin\<close>

lemma listAdmins_Nil: "(listAdmins d = []) = (admins d = [])"
  by (simp add: listAdmins_def flip: length_0_conv)

lemma seed_empty:
  assumes "admins d = []"
  shows "seedDefaultAdmin bhash now d =
     ([ConsoleLog ''Default admin account created''],
      d\<lparr>admins_id_seq := admins_id_seq d + 1,
        admins := [\<lparr>a_id = admins_id_seq d + 1, a_username = ''admin'',
                    a_password = bhash ''admin123'' 10, a_fullName = ''System Administrator'',
                    a_email = ''admin@travelcrm.com'', a_role = ''admin'', a_active = True,
                    a_lastLogin = None, a_createdAt = now\<rparr>]\<rparr>)"
  using assms
  by (simp add: seedDefaultAdmin_def listAdmins_Nil createAdmin_def unique_ok_def
      defaultAdmin_def setcol_def Let_def)

lemma seed_nonempty:
  assumes "admins d \<noteq> []"
  shows "seedDefaultAdmin bhash now d = ([], d)"
  using assms by (simp add: seedDefaultAdmin_def listAdmins_Nil)

text \<open>
  C9. On a store with no admin row the seeding creates exactly one admin, with role
  \<open>admin\<close>; on a store with an admin row it changes nothing; so seeding a seeded store
  again creates no further admin.
\<close>

theorem seedDefaultAdmin_once:
  "(admins d = [] \<longrightarrow>
      (\<exists>a. admins (snd (seedDefaultAdmin bhash now d)) = [a] \<and> a_role a = ''admin''
           \<and> a_username a = ''admin'' \<and> a_active a))
   \<and> (admins d \<noteq> [] \<longrightarrow> seedDefaultAdmin bhash now d = ([], d))
   \<and> snd (seedDefaultAdmin bhash' now' (snd (seedDefaultAdmin bhash now d)))
       = snd (seedDefaultAdmin bhash now d)"
proof (cases "admins d = []")
  case True
  have ne: "admins (snd (seedDefaultAdmin bhash now d)) \<noteq> []"
    by (simp add: seed_empty [OF True])
  show ?thesis
    using True by (simp add: seed_nonempty [OF ne]) (simp add: seed_empty [OF True])
next
  case False
  then show ?thesis by (simp add: seed_nonempty)
qed

theorem seedDefaultAdmin_once_witness:
  "admins empty_db = []
   \<and> (\<exists>a. admins (snd (seedDefaultAdmin ex_hash 100 empty_db)) = [a] \<and> a_role a = ''admin''
           \<and> a_username a = ''admin'' \<and> a_active a)
   \<and> admins ex_db \<noteq> [] \<and> seedDefaultAdmin ex_hash 100 ex_db = ([], ex_db)
   \<and> snd (seedDefaultAdmin ex_hash 200 (snd (seedDefaultAdmin ex_hash 100 empty_db)))
       = snd (seedDefaultAdmin ex_hash 100 empty_db)"
proof -
  have e: "admins empty_db = []" by (simp add: empty_db_def)
  have n: "admins ex_db \<noteq> []" by (simp add: ex_db_def)
  show ?thesis
    using e n seedDefaultAdmin_once [of empty_db ex_hash 100 ex_hash 200]
      seedDefaultAdmin_once [of ex_db ex_hash 100 ex_hash 200]
    by simp
qed

section \<open>Login failures\<close>

lemma ex_login_parse:
  "3 \<le> length un \<Longrightarrow> 6 \<le> length pw \<Longrightarrow>
   loginSchema (body (ex_login un pw)) = Inr \<lparr>lc_username = un, lc_password = pw\<rparr>"
  by (simp add: loginSchema_def ex_login_def zStringMin_def field_def)

text \<open>
  C2, as amended. A login that fails because the username is absent, or because the
  password does not match the hash of an active admin, is answered 401 with the one
  message \<open>Invalid username or password\<close> and changes nothing. A login on the username
  of an inactive admin is answered 401 \<open>Account is disabled\<close>, whatever the password:
  that cause is told apart.
\<close>

theorem login_failure_messages:
  assumes "loginSchema (body req) = Inr cred"
  shows "(username_absent cred d \<or> (hash_mismatch bcompare cred d \<and> \<not> account_inactive cred d)
            \<longrightarrow> post_api_auth_login bcompare req now d
                  = (Json 401 (Message ''Invalid username or password''), d))
         \<and> (account_inactive cred d
            \<longrightarrow> post_api_auth_login bcompare req now d
                  = (Json 401 (Message ''Account is disabled''), d))"
  using assms
  by (auto simp: post_api_auth_login_def verify_def username_absent_def hash_mismatch_def
      account_inactive_def validatePassword_def split: option.splits)

theorem login_failure_messages_witness:
  "loginSchema (body (ex_login ''nobody'' ''secret99'')) = Inr \<lparr>lc_username = ''nobody'', lc_password = ''secret99''\<rparr>
   \<and> username_absent \<lparr>lc_username = ''nobody'', lc_password = ''secret99''\<rparr> ex_db
   \<and> post_api_auth_login ex_compare (ex_login ''nobody'' ''secret99'') 9000 ex_db
       = (Json 401 (Message ''Invalid username or password''), ex_db)
   \<and> loginSchema (body (ex_login ''admin'' ''secret99'')) = Inr \<lparr>lc_username = ''admin'', lc_password = ''secret99''\<rparr>
   \<and> hash_mismatch ex_compare \<lparr>lc_username = ''admin'', lc_password = ''secret99''\<rparr> ex_db
   \<and> \<not> account_inactive \<lparr>lc_username = ''admin'', lc_password = ''secret99''\<rparr> ex_db
   \<and> post_api_auth_login ex_compare (ex_login ''admin'' ''secret99'') 9000 ex_db
       = (Json 401 (Message ''Invalid username or password''), ex_db)
   \<and> loginSchema (body (ex_login ''carol'' ''secret99'')) = Inr \<lparr>lc_username = ''carol'', lc_password = ''secret99''\<rparr>
   \<and> account_inactive \<lparr>lc_username = ''carol'', lc_password = ''secret99''\<rparr> ex_db
   \<and> post_api_auth_login ex_compare (ex_login ''carol'' ''secret99'') 9000 ex_db
       = (Json 401 (Message ''Account is disabled''), ex_db)"
proof -
  have p1: "loginSchema (body (ex_login ''nobody'' ''secret99'')) = Inr \<lparr>lc_username = ''nobody'', lc_password = ''secret99''\<rparr>"
    by (simp add: ex_login_parse)
  have p2: "loginSchema (body (ex_login ''admin'' ''secret99'')) = Inr \<lparr>lc_username = ''admin'', lc_password = ''secret99''\<rparr>"
    by (simp add: ex_login_parse)
  have p3: "loginSchema (body (ex_login ''carol'' ''secret99'')) = Inr \<lparr>lc_username = ''carol'', lc_password = ''secret99''\<rparr>"
    by (simp add: ex_login_parse)
  have c1: "username_absent \<lparr>lc_username = ''nobody'', lc_password = ''secret99''\<rparr> ex_db"
    by (simp add: username_absent_def getAdminByUsername_def ex_defs range_defs)
  have c2: "hash_mismatch ex_compare \<lparr>lc_username = ''admin'', lc_password = ''secret99''\<rparr> ex_db
      \<and> \<not> account_inactive \<lparr>lc_username = ''admin'', lc_password = ''secret99''\<rparr> ex_db"
    by (simp add: hash_mismatch_def account_inactive_def getAdminByUsername_def ex_defs range_defs)
  have c3: "account_inactive \<lparr>lc_username = ''carol'', lc_password = ''secret99''\<rparr> ex_db"
    by (simp add: account_inactive_def getAdminByUsername_def ex_defs range_defs)
  show ?thesis
    using p1 p2 p3 c1 c2 c3
      login_failure_messages [OF p1, of ex_db ex_compare 9000]
      login_failure_messages [OF p2, of ex_db ex_compare 9000]
      login_failure_messages [OF p3, of ex_db ex_compare 9000]
    by simp
qed

text \<open>
  The disabled account answers differently: for \<open>carol\<close>, who is disabled, for a
  username that does not exist and for a wrong password of an active admin, the first
  body differs from the other two.
\<close>

theorem login_disabled_counterexample:
  "post_api_auth_login ex_compare (ex_login ''carol'' ''secret99'') 9000 ex_db
     = (Json 401 (Message ''Account is disabled''), ex_db)
   \<and> post_api_auth_login ex_compare (ex_login ''nobody'' ''secret99'') 9000 ex_db
     = (Json 401 (Message ''Invalid username or password''), ex_db)
   \<and> post_api_auth_login ex_compare (ex_login ''admin'' ''secret99'') 9000 ex_db
     = (Json 401 (Message ''Invalid username or password''), ex_db)"
  by (simp add: post_api_auth_login_def ex_login_parse verify_def getAdminByUsername_def
      validatePassword_def ex_defs range_defs)

section \<open>Stored passwords\<close>

lemma createAdmin_hashes:
  "createAdmin bhash ins now d = (Inr a, d') \<Longrightarrow>
     a_password a = bhash (ia_password ins) 10 \<and> admins d' = admins d @ [a]"
  by (auto simp: createAdmin_def Let_def split: if_splits)

lemma updateAdmin_hashes:
  assumes "pa_password p = Some pw" and "pw \<noteq> []"
    and "updateAdmin bhash ident p d = (Inr (Some a), d')"
  shows "a_password a = bhash pw 10"
  using assms
  by (auto simp: updateAdmin_def Let_def set_admin_def setcol_def
      split: if_splits list.splits)

text \<open>
  C7. \<open>createAdmin\<close> stores the hash, and \<open>updateAdmin\<close> stores the hash of a
  non-empty password (the two lemmas above). An empty password in the partial is
  present but not truthy: \<open>updateAdmin\<close> skips the hashing and writes the empty string
  itself into the password column, for every hash function, and
  \<^verbatim>\<open>PUT /api/admins/1\<close> answers 200.
\<close>

theorem updateAdmin_empty_password:
  "updateAdmin bhash 1 (noAdminData\<lparr>pa_password := Some []\<rparr>) ex_db
     = (Inr (Some (ex_root\<lparr>a_password := []\<rparr>)),
        ex_db\<lparr>admins := [ex_root\<lparr>a_password := []\<rparr>, ex_carol]\<rparr>)
   \<and> put_api_admins_id bhash (ex_req (noAdminData\<lparr>pa_password := Some []\<rparr>) ''1'') 9000 ex_db
     = (Json 200 (AdminP (sanitize ex_root)),
        ex_db\<lparr>admins := [ex_root\<lparr>a_password := []\<rparr>, ex_carol],
              auditLogs := [\<lparr>l_id = 1, l_adminId = Some 1, l_entityType = ''admin'',
                             l_entityId = 1, l_action = ''update'',
                             l_details = ''Admin admin updated'', l_createdAt = 9000\<rparr>],
              audit_logs_id_seq := 1\<rparr>)"
  by (simp add: put_api_admins_id_def requireAdmin_def ex_req_def parseInt10_def isSpace_def
      isDigit_def updateAdmin_def no_values_admin_def noAdminData_def set_admin_def setcol_def
      unique_ok_def admin_referenced_def createAuditLog_def storage_createAuditLog_def
      admin_ref_ok_def sanitize_def ex_defs range_defs Let_def)

section \<open>Search\<close>

lemma like_match_Cons_Nil: "like_match (p # ps) [] = (p = CHR ''%'' \<and> like_match ps [])"
  by (cases ps) simp_all

lemma like_match_Cons_Cons:
  "like_match (p # ps) (c # t) =
     (if p = CHR ''%'' then like_match ps (c # t) \<or> like_match (p # ps) t
      else if p = CHR ''_'' then like_match ps t
      else if p = CHR 0x5C then
        (case ps of [] \<Rightarrow> False | q # qs \<Rightarrow> lower_char c = lower_char q \<and> like_match qs t)
      else lower_char c = lower_char p \<and> like_match ps t)"
  by (cases ps) simp_all

lemmas like_match_unfold = like_match.simps(1) like_match_Cons_Nil like_match_Cons_Cons

lemma like_match_percent: "like_match ''%'' s"
  by (induction s) (simp_all del: like_match.simps add: like_match_unfold)

lemma like_match_plain_prefix:
  "\<forall>c \<in> set q. \<not> like_special c \<Longrightarrow>
   like_match (q @ ''%'') s = prefix (map lower_char q) (map lower_char s)"
proof (induction q arbitrary: s)
  case Nil
  then show ?case by (simp del: like_match.simps add: like_match_percent)
next
  case (Cons p ps)
  then have p: "p \<noteq> CHR ''%''" "p \<noteq> CHR ''_''" "p \<noteq> CHR 0x5C"
    and ps: "\<forall>c \<in> set ps. \<not> like_special c"
    by (auto simp: like_special_def)
  show ?case
  proof (cases s)
    case Nil
    then show ?thesis using p by (simp del: like_match.simps add: like_match_unfold)
  next
    case (Cons c t)
    then show ?thesis
      using p Cons.IH [OF ps, of t]
      by (auto simp del: like_match.simps simp add: like_match_unfold)
  qed
qed

lemma like_match_plain_sublist:
  assumes "\<forall>c \<in> set q. \<not> like_special c"
  shows "like_match (''%'' @ q @ ''%'') s = sublist (map lower_char q) (map lower_char s)"
proof (induction s)
  case Nil
  show ?case
    using like_match_plain_prefix [OF assms, of "[]"]
    by (simp del: like_match.simps add: like_match_unfold)
next
  case (Cons x t)
  show ?case
    using like_match_plain_prefix [OF assms, of "x # t"] Cons.IH
    by (simp del: like_match.simps add: like_match_unfold sublist_Cons_right)
qed

lemma searchClients_plain_query:
  assumes "\<forall>c \<in> set query. \<not> like_special c"
  shows "searchClients query d = filter (matches_query query) (clients d)"
  unfolding searchClients_def ilike_def matches_query_def substring_ci_def
  by (simp only: like_match_plain_sublist [OF assms])

text \<open>
  C8. For a query with none of the characters \<^verbatim>\<open>%\<close>, \<^verbatim>\<open>_\<close> and backslash the search is the
  substring search of the specification (the lemma above). But the query goes into the
  \<^verbatim>\<open>ILIKE\<close> pattern as it is: the query \<^verbatim>\<open>_\<close> is a substring of no field of the two
  example clients, and \<open>searchClients\<close> returns both.
\<close>

theorem searchClients_wildcard:
  "searchClients ''_'' ex_db = [ex_john, ex_mary]
   \<and> filter (matches_query ''_'') (clients ex_db) = []"
  by code_simp

section \<open>Partial updates\<close>














lemma ex_updateClient:
  "updateClient 1 (noClientData\<lparr>pc_email := Some ''x@y.com''\<rparr>) 9000 ex_db
     = (Inr (Some (ex_john\<lparr>c_email := ''x@y.com'', c_updatedAt := 9000\<rparr>)),
        ex_db\<lparr>clients := [ex_john\<lparr>c_email := ''x@y.com'', c_updatedAt := 9000\<rparr>, ex_mary]\<rparr>)"
  by (simp add: updateClient_def noClientData_def set_client_def setcol_def unique_ok_def
      admin_ref_ok_def ex_defs range_defs Let_def)

lemma ex_updateInteraction:
  "updateInteraction 2 (noInteractionData\<lparr>pi_title := Some ''Call back''\<rparr>) 9000 ex_db
     = (Inr (Some (ex_ring\<lparr>i_title := ''Call back'', i_updatedAt := 9000\<rparr>)),
        ex_db\<lparr>interactions := [ex_visit, ex_ring\<lparr>i_title := ''Call back'', i_updatedAt := 9000\<rparr>]\<rparr>)"
  by (simp add: updateInteraction_def noInteractionData_def set_interaction_def setcol_def
      unique_ok_def admin_ref_ok_def ex_defs range_defs Let_def)



section \<open>Validation\<close>

lemma issues_of_ap: "issues_of (ap f x) = issues_of f @ issues_of x"
  by (cases f; cases x) (simp_all add: issues_of_def)

lemma issues_of_Inr: "issues_of (Inr v) = []"
  by (simp add: issues_of_def)

lemma issues_of_Inl: "r = Inl issues \<Longrightarrow> issues_of r = issues"
  by (simp add: issues_of_def)

lemma isl_ap: "isl (ap f x) = (isl f \<or> isl x)"
  by (cases f; cases x) simp_all

lemma ap_proper:
  "(isl f \<longrightarrow> issues_of f \<noteq> []) \<Longrightarrow> (isl x \<longrightarrow> issues_of x \<noteq> []) \<Longrightarrow>
   (isl (ap f x) \<longrightarrow> issues_of (ap f x) \<noteq> [])"
  by (cases f; cases x) (simp_all add: issues_of_def)

lemma parsed_by_issues: "issues_of r \<noteq> [] \<Longrightarrow> r = Inl (issues_of r)"
  by (cases r) (simp_all add: issues_of_def)

lemma zString_proper: "isl (zString k b) \<longrightarrow> issues_of (zString k b) \<noteq> []"
  by (simp add: zString_def issues_of_def split: option.splits json.splits)

lemma zStringOptional_proper: "isl (zStringOptional k b) \<longrightarrow> issues_of (zStringOptional k b) \<noteq> []"
  by (simp add: zStringOptional_def issues_of_def split: option.splits json.splits)

lemma zStringNullish_proper: "isl (zStringNullish k b) \<longrightarrow> issues_of (zStringNullish k b) \<noteq> []"
  by (simp add: zStringNullish_def issues_of_def split: option.splits json.splits)

lemma zBooleanOptional_proper: "isl (zBooleanOptional k b) \<longrightarrow> issues_of (zBooleanOptional k b) \<noteq> []"
  by (simp add: zBooleanOptional_def issues_of_def split: option.splits json.splits)

lemma zBooleanNullish_proper: "isl (zBooleanNullish k b) \<longrightarrow> issues_of (zBooleanNullish k b) \<noteq> []"
  by (simp add: zBooleanNullish_def issues_of_def split: option.splits json.splits)

lemma zNumber_proper: "isl (zNumber k b) \<longrightarrow> issues_of (zNumber k b) \<noteq> []"
  by (simp add: zNumber_def zInt_def issues_of_def split: option.splits json.splits)

lemma zNumberNullish_proper: "isl (zNumberNullish k b) \<longrightarrow> issues_of (zNumberNullish k b) \<noteq> []"
  by (simp add: zNumberNullish_def zInt_def issues_of_def split: option.splits json.splits)

lemma zEnum_proper: "isl (zEnum dec k b) \<longrightarrow> issues_of (zEnum dec k b) \<noteq> []"
  by (simp add: zEnum_def issues_of_def split: option.splits json.splits)

lemma zEnumOptional_proper: "isl (zEnumOptional dec k b) \<longrightarrow> issues_of (zEnumOptional dec k b) \<noteq> []"
  by (simp add: zEnumOptional_def issues_of_def split: option.splits json.splits)

lemma zEnumNullish_proper: "isl (zEnumNullish dec k b) \<longrightarrow> issues_of (zEnumNullish dec k b) \<noteq> []"
  by (simp add: zEnumNullish_def issues_of_def split: option.splits json.splits)

lemma zCoerceDate_proper: "isl (zCoerceDate toDate k b) \<longrightarrow> issues_of (zCoerceDate toDate k b) \<noteq> []"
  by (simp add: zCoerceDate_def issues_of_def split: option.splits)

lemmas z_proper = zString_proper zStringOptional_proper zStringNullish_proper
  zBooleanOptional_proper zBooleanNullish_proper zNumber_proper zNumberNullish_proper
  zEnum_proper zEnumOptional_proper zEnumNullish_proper zCoerceDate_proper

lemma Inr_proper: "isl (Inr f :: 'a parsed) \<longrightarrow> issues_of (Inr f :: 'a parsed) \<noteq> []"
  by simp

lemma insertClientSchema_proper:
  "insertClientSchema b = Inl issues \<Longrightarrow> issues \<noteq> []"
proof -
  have "isl (insertClientSchema b) \<longrightarrow> issues_of (insertClientSchema b) \<noteq> []"
    unfolding insertClientSchema_def by (intro ap_proper z_proper Inr_proper)
  then show "insertClientSchema b = Inl issues \<Longrightarrow> issues \<noteq> []"
    by (simp add: issues_of_def)
qed

lemma insertAdminSchema_proper:
  "insertAdminSchema b = Inl issues \<Longrightarrow> issues \<noteq> []"
proof -
  have "isl (insertAdminSchema b) \<longrightarrow> issues_of (insertAdminSchema b) \<noteq> []"
    unfolding insertAdminSchema_def by (intro ap_proper z_proper Inr_proper)
  then show "insertAdminSchema b = Inl issues \<Longrightarrow> issues \<noteq> []"
    by (simp add: issues_of_def)
qed

lemma insertInteractionSchema_proper:
  "insertInteractionSchema toDate b = Inl issues \<Longrightarrow> issues \<noteq> []"
proof -
  have "isl (insertInteractionSchema toDate b)
        \<longrightarrow> issues_of (insertInteractionSchema toDate b) \<noteq> []"
    unfolding insertInteractionSchema_def by (intro ap_proper z_proper Inr_proper)
  then show "insertInteractionSchema toDate b = Inl issues \<Longrightarrow> issues \<noteq> []"
    by (simp add: issues_of_def)
qed

lemma insertClientSchema_issues:
  "issues_of (insertClientSchema b) =
     issues_of (zString ''firstName'' b) @ issues_of (zString ''lastName'' b)
     @ issues_of (zString ''email'' b) @ issues_of (zString ''phone'' b)
     @ issues_of (zEnumOptional marketTypeEnum ''marketType'' b)
     @ issues_of (zStringNullish ''market'' b)
     @ issues_of (zEnumNullish segmentEnum ''segment'' b)
     @ issues_of (zEnumNullish businessTypeEnum ''businessType'' b)
     @ issues_of (zStringNullish ''headcountName'' b)
     @ issues_of (zStringNullish ''headcountRole'' b)
     @ issues_of (zStringNullish ''headcountEmail'' b)
     @ issues_of (zBooleanNullish ''if_active'' b)
     @ issues_of (zNumberNullish ''createdBy'' b)"
  by (simp add: insertClientSchema_def issues_of_ap issues_of_Inr)

lemma insertAdminSchema_issues:
  "issues_of (insertAdminSchema b) =
     issues_of (zString ''username'' b) @ issues_of (zString ''password'' b)
     @ issues_of (zString ''fullName'' b) @ issues_of (zString ''email'' b)
     @ issues_of (zStringOptional ''role'' b) @ issues_of (zBooleanOptional ''active'' b)"
  by (simp add: insertAdminSchema_def issues_of_ap issues_of_Inr)

lemma insertInteractionSchema_issues:
  "issues_of (insertInteractionSchema toDate b) =
     issues_of (zNumber ''clientId'' b) @ issues_of (zEnum interactionTypeEnum ''type'' b)
     @ issues_of (zString ''title'' b) @ issues_of (zString ''description'' b)
     @ issues_of (zCoerceDate toDate ''date'' b) @ issues_of (zNumberNullish ''createdBy'' b)"
  by (simp add: insertInteractionSchema_def issues_of_ap issues_of_Inr)

lemma zString_bad:
  "field b k = None \<or> wrong_type is_JStr b k \<Longrightarrow> issues_of (zString k b) = [(k, invalid_type)]"
  by (auto simp: zString_def issues_of_def wrong_type_def is_JStr_def
      split: option.splits json.splits)

lemma zStringOptional_bad:
  "wrong_type is_JStr b k \<Longrightarrow> issues_of (zStringOptional k b) = [(k, invalid_type)]"
  by (auto simp: zStringOptional_def issues_of_def wrong_type_def is_JStr_def
      split: option.splits json.splits)

lemma zStringNullish_bad:
  "wrong_type_nullable is_JStr b k \<Longrightarrow> issues_of (zStringNullish k b) = [(k, invalid_type)]"
  by (auto simp: zStringNullish_def issues_of_def wrong_type_nullable_def is_JStr_def
      split: option.splits json.splits)

lemma zBooleanOptional_bad:
  "wrong_type is_JBool b k \<Longrightarrow> issues_of (zBooleanOptional k b) = [(k, invalid_type)]"
  by (auto simp: zBooleanOptional_def issues_of_def wrong_type_def is_JBool_def
      split: option.splits json.splits)

lemma zBooleanNullish_bad:
  "wrong_type_nullable is_JBool b k \<Longrightarrow> issues_of (zBooleanNullish k b) = [(k, invalid_type)]"
  by (auto simp: zBooleanNullish_def issues_of_def wrong_type_nullable_def is_JBool_def
      split: option.splits json.splits)

lemma zNumber_bad:
  "field b k = None \<or> wrong_type is_JNum b k \<Longrightarrow> issues_of (zNumber k b) = [(k, invalid_type)]"
  by (auto simp: zNumber_def issues_of_def wrong_type_def is_JNum_def
      split: option.splits json.splits)

lemma zNumberNullish_bad:
  "wrong_type_nullable is_JNum b k \<Longrightarrow> issues_of (zNumberNullish k b) = [(k, invalid_type)]"
  by (auto simp: zNumberNullish_def issues_of_def wrong_type_nullable_def is_JNum_def
      split: option.splits json.splits)

lemma zEnum_bad:
  "field b k = None \<or> wrong_type is_JStr b k \<Longrightarrow> issues_of (zEnum dec k b) = [(k, invalid_type)]"
  by (auto simp: zEnum_def issues_of_def wrong_type_def is_JStr_def
      split: option.splits json.splits)

lemma zEnumOptional_bad:
  "wrong_type is_JStr b k \<Longrightarrow> issues_of (zEnumOptional dec k b) = [(k, invalid_type)]"
  by (auto simp: zEnumOptional_def issues_of_def wrong_type_def is_JStr_def
      split: option.splits json.splits)

lemma zEnumNullish_bad:
  "wrong_type_nullable is_JStr b k \<Longrightarrow> issues_of (zEnumNullish dec k b) = [(k, invalid_type)]"
  by (auto simp: zEnumNullish_def issues_of_def wrong_type_nullable_def is_JStr_def
      split: option.splits json.splits)

lemma zCoerceDate_bad:
  "toDate (field b k) = None \<Longrightarrow> issues_of (zCoerceDate toDate k b) = [(k, invalid_date)]"
  by (simp add: zCoerceDate_def issues_of_def)

lemma zEnumOptional_wrong:
  "field b k = Some (JStr s) \<Longrightarrow> dec s = None \<Longrightarrow>
   issues_of (zEnumOptional dec k b) = [(k, invalid_enum_value)]"
  by (simp add: zEnumOptional_def issues_of_def)

lemma zEnumNullish_wrong:
  "field b k = Some (JStr s) \<Longrightarrow> dec s = None \<Longrightarrow>
   issues_of (zEnumNullish dec k b) = [(k, invalid_enum_value)]"
  by (simp add: zEnumNullish_def issues_of_def)

lemma zEnum_wrong:
  "field b k = Some (JStr s) \<Longrightarrow> dec s = None \<Longrightarrow>
   issues_of (zEnum dec k b) = [(k, invalid_enum_value)]"
  by (simp add: zEnum_def issues_of_def)

lemma rejects: "x \<in> set (issues_of r) \<Longrightarrow> \<exists>issues. r = Inl issues \<and> x \<in> set issues"
  by (cases r) (simp_all add: issues_of_def)

lemma client_invalid_type:
  assumes "k \<in> set [''firstName'', ''lastName'', ''email'', ''phone''] \<and> field b k = None
     \<or> k \<in> set [''firstName'', ''lastName'', ''email'', ''phone'', ''marketType'']
        \<and> wrong_type is_JStr b k
     \<or> k \<in> set [''market'', ''segment'', ''businessType'', ''headcountName'', ''headcountRole'',
                  ''headcountEmail''] \<and> wrong_type_nullable is_JStr b k
     \<or> k = ''if_active'' \<and> wrong_type_nullable is_JBool b k
     \<or> k = ''createdBy'' \<and> wrong_type_nullable is_JNum b k"
  shows "\<exists>issues. insertClientSchema b = Inl issues \<and> (k, invalid_type) \<in> set issues"
proof -
  have "(k, invalid_type) \<in> set (issues_of (insertClientSchema b))"
    using assms unfolding insertClientSchema_issues
    by (elim disjE conjE)
       (auto simp: zString_bad zEnumOptional_bad zStringNullish_bad zEnumNullish_bad
          zBooleanNullish_bad zNumberNullish_bad)
  then show ?thesis by (rule rejects)
qed

lemma client_enums:
  assumes "field b k = Some (JStr s)"
    and "k = ''marketType'' \<and> marketTypeEnum s = None
         \<or> k = ''segment'' \<and> segmentEnum s = None
         \<or> k = ''businessType'' \<and> businessTypeEnum s = None"
  shows "\<exists>issues. insertClientSchema b = Inl issues \<and> (k, invalid_enum_value) \<in> set issues"
proof -
  have "(k, invalid_enum_value) \<in> set (issues_of (insertClientSchema b))"
    using assms(2) zEnumOptional_wrong [OF assms(1), of marketTypeEnum]
      zEnumNullish_wrong [OF assms(1), of segmentEnum]
      zEnumNullish_wrong [OF assms(1), of businessTypeEnum]
    unfolding insertClientSchema_issues by auto
  then show ?thesis by (rule rejects)
qed

lemma admin_invalid_type:
  assumes "k \<in> set [''username'', ''password'', ''fullName'', ''email''] \<and> field b k = None
     \<or> k \<in> set [''username'', ''password'', ''fullName'', ''email'', ''role'']
        \<and> wrong_type is_JStr b k
     \<or> k = ''active'' \<and> wrong_type is_JBool b k"
  shows "\<exists>issues. insertAdminSchema b = Inl issues \<and> (k, invalid_type) \<in> set issues"
proof -
  have "(k, invalid_type) \<in> set (issues_of (insertAdminSchema b))"
    using assms unfolding insertAdminSchema_issues
    by (elim disjE conjE) (auto simp: zString_bad zStringOptional_bad zBooleanOptional_bad)
  then show ?thesis by (rule rejects)
qed

lemma interaction_invalid_type:
  assumes "k \<in> set [''type'', ''title'', ''description'']
        \<and> (field b k = None \<or> wrong_type is_JStr b k)
     \<or> k = ''clientId'' \<and> (field b k = None \<or> wrong_type is_JNum b k)
     \<or> k = ''createdBy'' \<and> wrong_type_nullable is_JNum b k"
  shows "\<exists>issues. insertInteractionSchema toDate b = Inl issues \<and> (k, invalid_type) \<in> set issues"
proof -
  have "(k, invalid_type) \<in> set (issues_of (insertInteractionSchema toDate b))"
    using assms unfolding insertInteractionSchema_issues
    by (elim disjE conjE) (auto simp: zString_bad zEnum_bad zNumber_bad zNumberNullish_bad)
  then show ?thesis by (rule rejects)
qed

lemma interaction_enum:
  assumes "field b ''type'' = Some (JStr s)" and "interactionTypeEnum s = None"
  shows "\<exists>issues. insertInteractionSchema toDate b = Inl issues
           \<and> (''type'', invalid_enum_value) \<in> set issues"
proof -
  have "(''type'', invalid_enum_value) \<in> set (issues_of (insertInteractionSchema toDate b))"
    using zEnum_wrong [of b "''type''" s interactionTypeEnum, OF assms]
    unfolding insertInteractionSchema_issues by auto
  then show ?thesis by (rule rejects)
qed

lemma interaction_date:
  assumes "toDate (field b ''date'') = None"
  shows "\<exists>issues. insertInteractionSchema toDate b = Inl issues
           \<and> (''date'', invalid_date) \<in> set issues"
proof -
  have "(''date'', invalid_date) \<in> set (issues_of (insertInteractionSchema toDate b))"
    using zCoerceDate_bad [of toDate b "''date''", OF assms]
    unfolding insertInteractionSchema_issues by auto
  then show ?thesis by (rule rejects)
qed

lemma post_api_clients_invalid:
  assumes "user req = Some u" and "insertClientSchema (body req) = Inl issues"
  shows "post_api_clients req tw ta d = (Json 400 (ZodMessage issues), d)"
  using assms by (simp add: post_api_clients_def requireAuth_def)

lemma post_api_admins_invalid:
  assumes "user req = Some u" and "u_role u = ''admin''"
    and "insertAdminSchema (body req) = Inl issues"
  shows "post_api_admins bhash req tw ta d = (Json 400 (ZodMessage issues), d)"
  using assms by (simp add: post_api_admins_def requireAdmin_def)

lemma post_api_clients_interactions_invalid:
  assumes "user req = Some u" and "parseInt10 (param req) = Some clientId"
    and "getClient clientId d = Inr (Some c)"
    and "insertInteractionSchema toDate
           (body req @ [(''clientId'', JNum clientId), (''createdBy'', JNum (u_id u))]) = Inl issues"
  shows "post_api_clients_interactions toDate req tw ta d = (Json 400 (ZodMessage issues), d)"
  using assms by (simp add: post_api_clients_interactions_def requireAuth_def)

lemmas route_defs = requireAuth_def requireAdmin_def ex_req_def parseInt10_def isSpace_def
  isDigit_def createAuditLog_def storage_createAuditLog_def unique_ok_def admin_ref_ok_def
  setcol_def Let_def

lemmas z_defs = field_def zString_def zStringMin_def zStringOptional_def zStringNullish_def
  zBooleanOptional_def zBooleanNullish_def zInt_def zNumber_def zNumberNullish_def zEnum_def
  zEnumOptional_def zEnumNullish_def zCoerceDate_def marketTypeEnum_def segmentEnum_def
  businessTypeEnum_def interactionTypeEnum_def

lemma ex_bad_client:
  "insertClientSchema ex_bad_body
     = Inl [(''firstName'', invalid_type), (''marketType'', invalid_enum_value)]"
  by (simp add: insertClientSchema_def ex_bad_body_def z_defs)

lemma ex_bad_admin:
  "insertAdminSchema ex_bad_body
     = Inl [(''username'', invalid_type), (''password'', invalid_type), (''fullName'', invalid_type)]"
  by (simp add: insertAdminSchema_def ex_bad_body_def z_defs)

lemma ex_bad_interaction:
  "insertInteractionSchema ex_toDate (ex_bad_body @ [(''clientId'', JNum 1), (''createdBy'', JNum 1)])
     = Inl [(''type'', invalid_enum_value), (''title'', invalid_type),
            (''description'', invalid_type), (''date'', invalid_date)]"
  by (simp add: insertInteractionSchema_def ex_bad_body_def ex_toDate_def z_defs)

text \<open>
  C5, as amended. Each create route checks its insert schema before it calls the
  repository: when the schema rejects the body, the answer is 400 with the issues (there
  is at least one, each with the key it is about) and the store is unchanged. The
  schemas reject a body in which a required key is missing, a key holds a value of the
  wrong type, an enum key holds a string that is no member of the enum, or the date of
  an interaction is no date, and name that key. Nothing checks the form of an email
  address, the role of an admin is any string, and the update routes validate nothing.
\<close>

theorem create_routes_validate_first:
  "(user req = Some u \<and> insertClientSchema (body req) = Inl issues \<longrightarrow>
      post_api_clients req tw ta d = (Json 400 (ZodMessage issues), d) \<and> issues \<noteq> [])
   \<and> (user req = Some u \<and> u_role u = ''admin'' \<and> insertAdminSchema (body req) = Inl issues \<longrightarrow>
      post_api_admins bhash req tw ta d = (Json 400 (ZodMessage issues), d) \<and> issues \<noteq> [])
   \<and> (user req = Some u \<and> parseInt10 (param req) = Some clientId
       \<and> getClient clientId d = Inr (Some c)
       \<and> insertInteractionSchema toDate
            (body req @ [(''clientId'', JNum clientId), (''createdBy'', JNum (u_id u))]) = Inl issues
       \<longrightarrow> post_api_clients_interactions toDate req tw ta d = (Json 400 (ZodMessage issues), d)
           \<and> issues \<noteq> [])
   \<and> (k \<in> set [''firstName'', ''lastName'', ''email'', ''phone''] \<and> field b k = None
       \<or> k \<in> set [''firstName'', ''lastName'', ''email'', ''phone'', ''marketType'']
          \<and> wrong_type is_JStr b k
       \<or> k \<in> set [''market'', ''segment'', ''businessType'', ''headcountName'', ''headcountRole'',
                    ''headcountEmail''] \<and> wrong_type_nullable is_JStr b k
       \<or> k = ''if_active'' \<and> wrong_type_nullable is_JBool b k
       \<or> k = ''createdBy'' \<and> wrong_type_nullable is_JNum b k \<longrightarrow>
      (\<exists>iss. insertClientSchema b = Inl iss \<and> (k, invalid_type) \<in> set iss))
   \<and> (field b k = Some (JStr s)
       \<and> (k = ''marketType'' \<and> marketTypeEnum s = None
           \<or> k = ''segment'' \<and> segmentEnum s = None
           \<or> k = ''businessType'' \<and> businessTypeEnum s = None) \<longrightarrow>
      (\<exists>iss. insertClientSchema b = Inl iss \<and> (k, invalid_enum_value) \<in> set iss))
   \<and> (k \<in> set [''username'', ''password'', ''fullName'', ''email''] \<and> field b k = None
       \<or> k \<in> set [''username'', ''password'', ''fullName'', ''email'', ''role'']
          \<and> wrong_type is_JStr b k
       \<or> k = ''active'' \<and> wrong_type is_JBool b k \<longrightarrow>
      (\<exists>iss. insertAdminSchema b = Inl iss \<and> (k, invalid_type) \<in> set iss))
   \<and> (k \<in> set [''type'', ''title'', ''description'']
          \<and> (field b k = None \<or> wrong_type is_JStr b k)
       \<or> k = ''clientId'' \<and> (field b k = None \<or> wrong_type is_JNum b k)
       \<or> k = ''createdBy'' \<and> wrong_type_nullable is_JNum b k \<longrightarrow>
      (\<exists>iss. insertInteractionSchema toDate b = Inl iss \<and> (k, invalid_type) \<in> set iss))
   \<and> (field b ''type'' = Some (JStr s) \<and> interactionTypeEnum s = None \<longrightarrow>
      (\<exists>iss. insertInteractionSchema toDate b = Inl iss \<and> (''type'', invalid_enum_value) \<in> set iss))
   \<and> (toDate (field b ''date'') = None \<longrightarrow>
      (\<exists>iss. insertInteractionSchema toDate b = Inl iss \<and> (''date'', invalid_date) \<in> set iss))"
proof (intro conjI impI)
  show "post_api_clients req tw ta d = (Json 400 (ZodMessage issues), d)"
    if "user req = Some u \<and> insertClientSchema (body req) = Inl issues"
    using that post_api_clients_invalid by blast
  show "issues \<noteq> []" if "user req = Some u \<and> insertClientSchema (body req) = Inl issues"
    using that insertClientSchema_proper by blast
  show "post_api_admins bhash req tw ta d = (Json 400 (ZodMessage issues), d)"
    if "user req = Some u \<and> u_role u = ''admin'' \<and> insertAdminSchema (body req) = Inl issues"
    using that post_api_admins_invalid by blast
  show "issues \<noteq> []"
    if "user req = Some u \<and> u_role u = ''admin'' \<and> insertAdminSchema (body req) = Inl issues"
    using that insertAdminSchema_proper by blast
  show "post_api_clients_interactions toDate req tw ta d = (Json 400 (ZodMessage issues), d)"
    if "user req = Some u \<and> parseInt10 (param req) = Some clientId
       \<and> getClient clientId d = Inr (Some c)
       \<and> insertInteractionSchema toDate
            (body req @ [(''clientId'', JNum clientId), (''createdBy'', JNum (u_id u))]) = Inl issues"
    using that post_api_clients_interactions_invalid by blast
  show "issues \<noteq> []"
    if "user req = Some u \<and> parseInt10 (param req) = Some clientId
       \<and> getClient clientId d = Inr (Some c)
       \<and> insertInteractionSchema toDate
            (body req @ [(''clientId'', JNum clientId), (''createdBy'', JNum (u_id u))]) = Inl issues"
    using that insertInteractionSchema_proper by blast
  show "\<exists>iss. insertClientSchema b = Inl iss \<and> (k, invalid_type) \<in> set iss"
    if "k \<in> set [''firstName'', ''lastName'', ''email'', ''phone''] \<and> field b k = None
       \<or> k \<in> set [''firstName'', ''lastName'', ''email'', ''phone'', ''marketType'']
          \<and> wrong_type is_JStr b k
       \<or> k \<in> set [''market'', ''segment'', ''businessType'', ''headcountName'', ''headcountRole'',
                    ''headcountEmail''] \<and> wrong_type_nullable is_JStr b k
       \<or> k = ''if_active'' \<and> wrong_type_nullable is_JBool b k
       \<or> k = ''createdBy'' \<and> wrong_type_nullable is_JNum b k"
    using that by (rule client_invalid_type)
  show "\<exists>iss. insertClientSchema b = Inl iss \<and> (k, invalid_enum_value) \<in> set iss"
    if "field b k = Some (JStr s)
       \<and> (k = ''marketType'' \<and> marketTypeEnum s = None
           \<or> k = ''segment'' \<and> segmentEnum s = None
           \<or> k = ''businessType'' \<and> businessTypeEnum s = None)"
    using that client_enums [of b k s] by blast
  show "\<exists>iss. insertAdminSchema b = Inl iss \<and> (k, invalid_type) \<in> set iss"
    if "k \<in> set [''username'', ''password'', ''fullName'', ''email''] \<and> field b k = None
       \<or> k \<in> set [''username'', ''password'', ''fullName'', ''email'', ''role'']
          \<and> wrong_type is_JStr b k
       \<or> k = ''active'' \<and> wrong_type is_JBool b k"
    using that by (rule admin_invalid_type)
  show "\<exists>iss. insertInteractionSchema toDate b = Inl iss \<and> (k, invalid_type) \<in> set iss"
    if "k \<in> set [''type'', ''title'', ''description'']
          \<and> (field b k = None \<or> wrong_type is_JStr b k)
       \<or> k = ''clientId'' \<and> (field b k = None \<or> wrong_type is_JNum b k)
       \<or> k = ''createdBy'' \<and> wrong_type_nullable is_JNum b k"
    using that by (rule interaction_invalid_type)
  show "\<exists>iss. insertInteractionSchema toDate b = Inl iss \<and> (''type'', invalid_enum_value) \<in> set iss"
    if "field b ''type'' = Some (JStr s) \<and> interactionTypeEnum s = None"
    using that interaction_enum [of b s toDate] by blast
  show "\<exists>iss. insertInteractionSchema toDate b = Inl iss \<and> (''date'', invalid_date) \<in> set iss"
    if "toDate (field b ''date'') = None"
    using that by (rule interaction_date)
qed

lemma ex_mistyped:
  "wrong_type is_JStr ex_mistyped_body ''firstName''"
  "wrong_type_nullable is_JStr ex_mistyped_body ''market''"
  "wrong_type_nullable is_JBool ex_mistyped_body ''if_active''"
  "wrong_type_nullable is_JNum ex_mistyped_body ''createdBy''"
  "wrong_type is_JStr ex_mistyped_body ''role''"
  "wrong_type is_JBool ex_mistyped_body ''active''"
  "wrong_type is_JStr ex_mistyped_body ''title''"
  "wrong_type is_JNum ex_mistyped_body ''clientId''"
  "field ex_mistyped_body ''type'' = None"
  "ex_toDate (field ex_mistyped_body ''date'') = None"
  by (simp_all add: ex_mistyped_body_def wrong_type_def wrong_type_nullable_def is_JStr_def
      is_JBool_def is_JNum_def field_def ex_toDate_def)

theorem create_routes_validate_first_witness:
  "user (ex_req ex_bad_body ''1'') = Some ex_session \<and> u_role ex_session = ''admin''
   \<and> insertClientSchema (body (ex_req ex_bad_body ''1''))
       = Inl [(''firstName'', invalid_type), (''marketType'', invalid_enum_value)]
   \<and> post_api_clients (ex_req ex_bad_body ''1'') 9000 9001 ex_db
       = (Json 400 (ZodMessage [(''firstName'', invalid_type), (''marketType'', invalid_enum_value)]),
          ex_db)
   \<and> insertAdminSchema (body (ex_req ex_bad_body ''1''))
       = Inl [(''username'', invalid_type), (''password'', invalid_type), (''fullName'', invalid_type)]
   \<and> post_api_admins ex_hash (ex_req ex_bad_body ''1'') 9000 9001 ex_db
       = (Json 400 (ZodMessage [(''username'', invalid_type), (''password'', invalid_type),
                                (''fullName'', invalid_type)]), ex_db)
   \<and> parseInt10 (param (ex_req ex_bad_body ''1'')) = Some 1
   \<and> getClient 1 ex_db = Inr (Some ex_john)
   \<and> post_api_clients_interactions ex_toDate (ex_req ex_bad_body ''1'') 9000 9001 ex_db
       = (Json 400 (ZodMessage [(''type'', invalid_enum_value), (''title'', invalid_type),
                                (''description'', invalid_type), (''date'', invalid_date)]), ex_db)
   \<and> field ex_bad_body ''firstName'' = None
   \<and> field ex_bad_body ''marketType'' = Some (JStr ''mars'') \<and> marketTypeEnum ''mars'' = None
   \<and> field ex_bad_body ''username'' = None \<and> field ex_bad_body ''title'' = None
   \<and> field ex_bad_body ''type'' = Some (JStr ''fax'') \<and> interactionTypeEnum ''fax'' = None
   \<and> wrong_type is_JStr ex_mistyped_body ''firstName''
   \<and> (\<exists>iss. insertClientSchema ex_mistyped_body = Inl iss
            \<and> (''firstName'', invalid_type) \<in> set iss)
   \<and> wrong_type_nullable is_JStr ex_mistyped_body ''market''
   \<and> (\<exists>iss. insertClientSchema ex_mistyped_body = Inl iss \<and> (''market'', invalid_type) \<in> set iss)
   \<and> wrong_type_nullable is_JBool ex_mistyped_body ''if_active''
   \<and> (\<exists>iss. insertClientSchema ex_mistyped_body = Inl iss
            \<and> (''if_active'', invalid_type) \<in> set iss)
   \<and> wrong_type_nullable is_JNum ex_mistyped_body ''createdBy''
   \<and> (\<exists>iss. insertClientSchema ex_mistyped_body = Inl iss
            \<and> (''createdBy'', invalid_type) \<in> set iss)
   \<and> wrong_type is_JStr ex_mistyped_body ''role''
   \<and> (\<exists>iss. insertAdminSchema ex_mistyped_body = Inl iss \<and> (''role'', invalid_type) \<in> set iss)
   \<and> wrong_type is_JBool ex_mistyped_body ''active''
   \<and> (\<exists>iss. insertAdminSchema ex_mistyped_body = Inl iss \<and> (''active'', invalid_type) \<in> set iss)
   \<and> wrong_type is_JStr ex_mistyped_body ''title''
   \<and> (\<exists>iss. insertInteractionSchema ex_toDate ex_mistyped_body = Inl iss
            \<and> (''title'', invalid_type) \<in> set iss)
   \<and> wrong_type is_JNum ex_mistyped_body ''clientId''
   \<and> (\<exists>iss. insertInteractionSchema ex_toDate ex_mistyped_body = Inl iss
            \<and> (''clientId'', invalid_type) \<in> set iss)
   \<and> field ex_mistyped_body ''type'' = None
   \<and> (\<exists>iss. insertInteractionSchema ex_toDate ex_mistyped_body = Inl iss
            \<and> (''type'', invalid_type) \<in> set iss)
   \<and> ex_toDate (field ex_mistyped_body ''date'') = None
   \<and> (\<exists>iss. insertInteractionSchema ex_toDate ex_mistyped_body = Inl iss
            \<and> (''date'', invalid_date) \<in> set iss)"
proof -
  have u: "user (ex_req ex_bad_body ''1'') = Some ex_session" "u_role ex_session = ''admin''"
    "body (ex_req ex_bad_body ''1'') = ex_bad_body" "u_id ex_session = 1"
    by (simp_all add: ex_req_def ex_session_def)
  have p: "parseInt10 (param (ex_req ex_bad_body ''1'')) = Some 1"
    by (simp add: ex_req_def parseInt10_def isSpace_def isDigit_def)
  have g: "getClient 1 ex_db = Inr (Some ex_john)" by (simp add: getClient_def ex_defs range_defs)
  have f: "field ex_bad_body ''firstName'' = None"
    "field ex_bad_body ''marketType'' = Some (JStr ''mars'')" "marketTypeEnum ''mars'' = None"
    "field ex_bad_body ''username'' = None" "field ex_bad_body ''title'' = None"
    "field ex_bad_body ''type'' = Some (JStr ''fax'')" "interactionTypeEnum ''fax'' = None"
    by (simp_all add: ex_bad_body_def z_defs)
  note T = create_routes_validate_first
  note t1 = T [of "ex_req ex_bad_body ''1''" ex_session
      "[(''firstName'', invalid_type), (''marketType'', invalid_enum_value)]" 9000 9001 ex_db
      ex_hash 1 ex_john ex_toDate "''firstName''" ex_bad_body "''mars''"]
  note t2 = T [of "ex_req ex_bad_body ''1''" ex_session
      "[(''username'', invalid_type), (''password'', invalid_type), (''fullName'', invalid_type)]"
      9000 9001 ex_db ex_hash 1 ex_john ex_toDate "''marketType''" ex_bad_body "''mars''"]
  note t3 = T [of "ex_req ex_bad_body ''1''" ex_session
      "[(''type'', invalid_enum_value), (''title'', invalid_type),
        (''description'', invalid_type), (''date'', invalid_date)]"
      9000 9001 ex_db ex_hash 1 ex_john ex_toDate "''title''" ex_bad_body "''fax''"]
  have routes: "post_api_clients (ex_req ex_bad_body ''1'') 9000 9001 ex_db
       = (Json 400 (ZodMessage [(''firstName'', invalid_type), (''marketType'', invalid_enum_value)]),
          ex_db)
     \<and> post_api_admins ex_hash (ex_req ex_bad_body ''1'') 9000 9001 ex_db
       = (Json 400 (ZodMessage [(''username'', invalid_type), (''password'', invalid_type),
                                (''fullName'', invalid_type)]), ex_db)
     \<and> post_api_clients_interactions ex_toDate (ex_req ex_bad_body ''1'') 9000 9001 ex_db
       = (Json 400 (ZodMessage [(''type'', invalid_enum_value), (''title'', invalid_type),
                                (''description'', invalid_type), (''date'', invalid_date)]), ex_db)"
    using u p g ex_bad_client ex_bad_admin ex_bad_interaction t1 t2 t3 by simp
  note M = T [where b = ex_mistyped_body and toDate = ex_toDate]
  have m1: "\<exists>iss. insertClientSchema ex_mistyped_body = Inl iss
            \<and> (''firstName'', invalid_type) \<in> set iss"
    using M [where k = "''firstName''"] ex_mistyped by simp
  have m2: "\<exists>iss. insertClientSchema ex_mistyped_body = Inl iss \<and> (''market'', invalid_type) \<in> set iss"
    using M [where k = "''market''"] ex_mistyped by simp
  have m3: "\<exists>iss. insertClientSchema ex_mistyped_body = Inl iss
            \<and> (''if_active'', invalid_type) \<in> set iss"
    using M [where k = "''if_active''"] ex_mistyped by simp
  have m4: "\<exists>iss. insertClientSchema ex_mistyped_body = Inl iss
            \<and> (''createdBy'', invalid_type) \<in> set iss"
    using M [where k = "''createdBy''"] ex_mistyped by simp
  have m5: "\<exists>iss. insertAdminSchema ex_mistyped_body = Inl iss \<and> (''role'', invalid_type) \<in> set iss"
    using M [where k = "''role''"] ex_mistyped by simp
  have m6: "\<exists>iss. insertAdminSchema ex_mistyped_body = Inl iss \<and> (''active'', invalid_type) \<in> set iss"
    using M [where k = "''active''"] ex_mistyped by simp
  have m7: "\<exists>iss. insertInteractionSchema ex_toDate ex_mistyped_body = Inl iss
            \<and> (''title'', invalid_type) \<in> set iss"
    using M [where k = "''title''"] ex_mistyped by simp
  have m8: "\<exists>iss. insertInteractionSchema ex_toDate ex_mistyped_body = Inl iss
            \<and> (''clientId'', invalid_type) \<in> set iss"
    using M [where k = "''clientId''"] ex_mistyped by simp
  have m9: "\<exists>iss. insertInteractionSchema ex_toDate ex_mistyped_body = Inl iss
            \<and> (''type'', invalid_type) \<in> set iss"
    using M [where k = "''type''"] ex_mistyped by simp
  have m10: "\<exists>iss. insertInteractionSchema ex_toDate ex_mistyped_body = Inl iss
            \<and> (''date'', invalid_date) \<in> set iss"
    using M [where k = "''date''"] ex_mistyped by simp
  show ?thesis
    using u p g f routes ex_bad_client ex_bad_admin ex_mistyped m1 m2 m3 m4 m5 m6 m7 m8 m9 m10
    by simp
qed

text \<open>
  An update and a create whose email is \<open>not-an-email\<close> are both persisted and answered
  200 and 201, and so is the creation of an admin whose role is \<open>superuser\<close>.
\<close>

theorem unvalidated_email_counterexample:
  "put_api_clients_id (ex_req (noClientData\<lparr>pc_email := Some ''not-an-email''\<rparr>) ''1'') 9000 9001 ex_db
     = (Json 200 (ClientP (Some (ex_john\<lparr>c_email := ''not-an-email'', c_updatedAt := 9000\<rparr>))),
        ex_db\<lparr>clients := [ex_john\<lparr>c_email := ''not-an-email'', c_updatedAt := 9000\<rparr>, ex_mary],
              auditLogs := [\<lparr>l_id = 1, l_adminId = Some 1, l_entityType = ''client'',
                             l_entityId = 1, l_action = ''update'',
                             l_details = ''Client John Smith updated'', l_createdAt = 9001\<rparr>],
              audit_logs_id_seq := 1\<rparr>)
   \<and> post_api_clients (ex_req ex_client_body []) 9000 9001 ex_db
     = (Json 201 (ClientP (Some ex_ann)),
        ex_db\<lparr>clients := [ex_john, ex_mary, ex_ann], clients_id_seq := 3,
              auditLogs := [\<lparr>l_id = 1, l_adminId = Some 1, l_entityType = ''client'',
                             l_entityId = 3, l_action = ''create'',
                             l_details = ''Client Ann Bell created'', l_createdAt = 9001\<rparr>],
              audit_logs_id_seq := 1\<rparr>)
   \<and> post_api_admins ex_hash (ex_req ex_role_body []) 9000 9001 ex_db
     = (Json 201 (AdminP (sanitize (ex_erin\<lparr>a_role := ''superuser''\<rparr>))),
        ex_db\<lparr>admins := [ex_root, ex_carol, ex_erin\<lparr>a_role := ''superuser''\<rparr>],
              admins_id_seq := 3,
              auditLogs := [\<lparr>l_id = 1, l_adminId = Some 1, l_entityType = ''admin'',
                             l_entityId = 3, l_action = ''create'',
                             l_details = ''Admin erin created'', l_createdAt = 9001\<rparr>],
              audit_logs_id_seq := 1\<rparr>)"
proof -
  have parsed: "insertClientSchema ex_client_body
      = Inr \<lparr>ic_firstName = ''Ann'', ic_lastName = ''Bell'', ic_email = ''not-an-email'',
             ic_phone = ''5550123'', ic_marketType = None, ic_market = None, ic_segment = None,
             ic_businessType = None, ic_headcountName = None, ic_headcountRole = None,
             ic_headcountEmail = None, ic_if_active = None, ic_createdBy = None\<rparr>"
    by (simp add: insertClientSchema_def ex_client_body_def z_defs)
  have put: "put_api_clients_id (ex_req (noClientData\<lparr>pc_email := Some ''not-an-email''\<rparr>) ''1'') 9000 9001 ex_db
     = (Json 200 (ClientP (Some (ex_john\<lparr>c_email := ''not-an-email'', c_updatedAt := 9000\<rparr>))),
        ex_db\<lparr>clients := [ex_john\<lparr>c_email := ''not-an-email'', c_updatedAt := 9000\<rparr>, ex_mary],
              auditLogs := [\<lparr>l_id = 1, l_adminId = Some 1, l_entityType = ''client'',
                             l_entityId = 1, l_action = ''update'',
                             l_details = ''Client John Smith updated'', l_createdAt = 9001\<rparr>],
              audit_logs_id_seq := 1\<rparr>)"
    by (simp add: put_api_clients_id_def route_defs getClient_def updateClient_def
        noClientData_def set_client_def ex_defs range_defs)
  have post: "post_api_clients (ex_req ex_client_body []) 9000 9001 ex_db
     = (Json 201 (ClientP (Some ex_ann)),
        ex_db\<lparr>clients := [ex_john, ex_mary, ex_ann], clients_id_seq := 3,
              auditLogs := [\<lparr>l_id = 1, l_adminId = Some 1, l_entityType = ''client'',
                             l_entityId = 3, l_action = ''create'',
                             l_details = ''Client Ann Bell created'', l_createdAt = 9001\<rparr>],
              audit_logs_id_seq := 1\<rparr>)"
    by (simp add: post_api_clients_def route_defs parsed createClient_def ex_ann_def ex_defs range_defs)
  have role_parsed: "insertAdminSchema ex_role_body
      = Inr \<lparr>ia_username = ''erin'', ia_password = ''pw123456'', ia_fullName = ''Erin Roe'',
             ia_email = ''erin@x.com'', ia_role = Some ''superuser'', ia_active = None\<rparr>"
    by (simp add: insertAdminSchema_def ex_role_body_def z_defs)
  have role: "post_api_admins ex_hash (ex_req ex_role_body []) 9000 9001 ex_db
     = (Json 201 (AdminP (sanitize (ex_erin\<lparr>a_role := ''superuser''\<rparr>))),
        ex_db\<lparr>admins := [ex_root, ex_carol, ex_erin\<lparr>a_role := ''superuser''\<rparr>],
              admins_id_seq := 3,
              auditLogs := [\<lparr>l_id = 1, l_adminId = Some 1, l_entityType = ''admin'',
                             l_entityId = 3, l_action = ''create'',
                             l_details = ''Admin erin created'', l_createdAt = 9001\<rparr>],
              audit_logs_id_seq := 1\<rparr>)"
    by (simp add: post_api_admins_def route_defs role_parsed createAdmin_def sanitize_def
        ex_erin_def ex_defs range_defs)
  show ?thesis using put post role by simp
qed

section \<open>The audit row of a mutating route\<close>

lemma createAuditLog_resolved:
  "createAuditLog req entityType entityId action details t d1 = (Inr x, d') \<Longrightarrow>
   user req = Some u \<Longrightarrow> one_audit_row d1 d' u entityType entityId action t"
  by (auto simp: createAuditLog_def storage_createAuditLog_def one_audit_row_def Let_def
      split: if_splits)

lemma createAuditLog_rejected:
  "user req = Some u \<Longrightarrow> audit_rejects u t d1 e \<Longrightarrow>
   createAuditLog req entityType entityId action details t d1 = (Inl e, audit_seq_advanced d1)"
  by (auto simp: createAuditLog_def storage_createAuditLog_def audit_rejects_def
      audit_seq_advanced_def Let_def split: if_splits)

lemma createAdmin_auditLogs: "createAdmin bhash ins now d = (r, d1) \<Longrightarrow> auditLogs d1 = auditLogs d"
  by (auto simp: createAdmin_def Let_def split: if_splits)

lemma updateAdmin_auditLogs: "updateAdmin bhash ident p d = (r, d1) \<Longrightarrow> auditLogs d1 = auditLogs d"
  by (auto simp: updateAdmin_def Let_def split: if_splits)

lemma createClient_auditLogs: "createClient ins now d = (r, d1) \<Longrightarrow> auditLogs d1 = auditLogs d"
  by (auto simp: createClient_def Let_def split: if_splits)

lemma updateClient_auditLogs: "updateClient ident p now d = (r, d1) \<Longrightarrow> auditLogs d1 = auditLogs d"
  by (auto simp: updateClient_def Let_def split: if_splits)

lemma deleteClient_auditLogs: "deleteClient ident d = (r, d1) \<Longrightarrow> auditLogs d1 = auditLogs d"
  by (auto simp: deleteClient_def Let_def split: if_splits)

lemma createInteraction_auditLogs:
  "createInteraction ins now d = (r, d1) \<Longrightarrow> auditLogs d1 = auditLogs d"
  by (auto simp: createInteraction_def Let_def split: if_splits)

lemma updateInteraction_auditLogs:
  "updateInteraction ident p now d = (r, d1) \<Longrightarrow> auditLogs d1 = auditLogs d"
  by (auto simp: updateInteraction_def Let_def split: if_splits)

lemma deleteInteraction_auditLogs: "deleteInteraction ident d = (r, d1) \<Longrightarrow> auditLogs d1 = auditLogs d"
  by (auto simp: deleteInteraction_def Let_def split: if_splits)

lemma post_api_admins_audited:
  assumes "post_api_admins bhash req tw ta d = (resp, d')" and "succeeded resp"
  shows "\<exists>u adminData admin d1. user req = Some u \<and> insertAdminSchema (body req) = Inr adminData
           \<and> createAdmin bhash adminData tw d = (Inr admin, d1) \<and> auditLogs d1 = auditLogs d
           \<and> one_audit_row d1 d' u ''admin'' (a_id admin) ''create'' ta"
  using assms
  by (auto simp: post_api_admins_def requireAdmin_def succeeded_def
      split: option.splits prod.splits sum.splits if_splits
      dest: createAuditLog_resolved createAdmin_auditLogs)

lemma put_api_admins_id_audited:
  assumes "put_api_admins_id bhash req ta d = (resp, d')" and "succeeded resp"
  shows "\<exists>u ident admin d1. user req = Some u \<and> parseInt10 (param req) = Some ident
           \<and> updateAdmin bhash ident (body req) d = (Inr (Some admin), d1)
           \<and> auditLogs d1 = auditLogs d
           \<and> one_audit_row d1 d' u ''admin'' ident ''update'' ta"
  using assms
  by (auto simp: put_api_admins_id_def requireAdmin_def succeeded_def
      split: option.splits prod.splits sum.splits if_splits
      dest: createAuditLog_resolved updateAdmin_auditLogs)

lemma post_api_clients_catch_not_succeeded: "\<not> succeeded (post_api_clients_catch e)"
  by (simp add: post_api_clients_catch_def succeeded_def)

lemma post_api_clients_audited:
  assumes "post_api_clients req tw ta d = (resp, d')" and "succeeded resp"
  shows "\<exists>u clientData client d1. user req = Some u
           \<and> insertClientSchema (body req) = Inr clientData
           \<and> createClient (clientData\<lparr>ic_createdBy := Some (u_id u)\<rparr>) tw d = (Inr client, d1)
           \<and> auditLogs d1 = auditLogs d
           \<and> one_audit_row d1 d' u ''client'' (c_id client) ''create'' ta"
  using assms
  by (auto simp: post_api_clients_def requireAuth_def succeeded_def Let_def
      post_api_clients_catch_def
      split: option.splits prod.splits sum.splits if_splits
      dest: createAuditLog_resolved createClient_auditLogs)

lemma put_api_clients_id_audited:
  assumes "put_api_clients_id req tw ta d = (resp, d')" and "succeeded resp"
  shows "\<exists>u ident r d1. user req = Some u \<and> parseInt10 (param req) = Some ident
           \<and> updateClient ident (body req) tw d = (Inr r, d1) \<and> auditLogs d1 = auditLogs d
           \<and> one_audit_row d1 d' u ''client'' ident ''update'' ta"
  using assms
  by (auto simp: put_api_clients_id_def requireAuth_def succeeded_def
      split: option.splits prod.splits sum.splits
      dest: createAuditLog_resolved updateClient_auditLogs)

lemma delete_api_clients_id_audited:
  assumes "delete_api_clients_id req ta d = (resp, d')" and "succeeded resp"
  shows "\<exists>u ident d1. user req = Some u \<and> parseInt10 (param req) = Some ident
           \<and> deleteClient ident d = (Inr True, d1) \<and> auditLogs d1 = auditLogs d
           \<and> one_audit_row d1 d' u ''client'' ident ''delete'' ta"
  using assms
  by (auto simp: delete_api_clients_id_def requireAuth_def succeeded_def
      split: option.splits prod.splits sum.splits if_splits
      dest: createAuditLog_resolved deleteClient_auditLogs)

lemma post_api_clients_interactions_audited:
  assumes "post_api_clients_interactions toDate req tw ta d = (resp, d')" and "succeeded resp"
  shows "\<exists>u clientId interactionData interaction d1. user req = Some u
           \<and> parseInt10 (param req) = Some clientId
           \<and> insertInteractionSchema toDate
                (body req @ [(''clientId'', JNum clientId), (''createdBy'', JNum (u_id u))])
               = Inr interactionData
           \<and> createInteraction interactionData tw d = (Inr interaction, d1)
           \<and> auditLogs d1 = auditLogs d
           \<and> one_audit_row d1 d' u ''interaction'' (i_id interaction) ''create'' ta"
  using assms
  by (auto simp: post_api_clients_interactions_def requireAuth_def succeeded_def
      split: option.splits prod.splits sum.splits if_splits
      dest: createAuditLog_resolved createInteraction_auditLogs)

lemma put_api_interactions_id_audited:
  assumes "put_api_interactions_id req tw ta d = (resp, d')" and "succeeded resp"
  shows "\<exists>u ident r d1. user req = Some u \<and> parseInt10 (param req) = Some ident
           \<and> updateInteraction ident (body req) tw d = (Inr r, d1) \<and> auditLogs d1 = auditLogs d
           \<and> one_audit_row d1 d' u ''interaction'' ident ''update'' ta"
  using assms
  by (auto simp: put_api_interactions_id_def requireAuth_def succeeded_def
      split: option.splits prod.splits sum.splits
      dest: createAuditLog_resolved updateInteraction_auditLogs)

lemma delete_api_interactions_id_audited:
  assumes "delete_api_interactions_id req ta d = (resp, d')" and "succeeded resp"
  shows "\<exists>u ident d1. user req = Some u \<and> parseInt10 (param req) = Some ident
           \<and> deleteInteraction ident d = (Inr True, d1) \<and> auditLogs d1 = auditLogs d
           \<and> one_audit_row d1 d' u ''interaction'' ident ''delete'' ta"
  using assms
  by (auto simp: delete_api_interactions_id_def requireAuth_def succeeded_def
      split: option.splits prod.splits sum.splits if_splits
      dest: createAuditLog_resolved deleteInteraction_auditLogs)

text \<open>
  C1, as amended. Whenever one of the eight mutating routes answers with a success
  status, its repository call has resolved, leaving the audit table as it was, and the
  store at the response differs from the store after that call by exactly one audit row,
  the last one, which carries the session user's id, the entity type, the entity id
  (of the created row, or the one in the path) and the action, and the time of the
  audit insert. The seeding of the default admin and the \<open>lastLogin\<close> update of a login
  write no audit row.
\<close>

theorem mutating_routes_audit_once:
  "(post_api_admins bhash reqJ tw ta d = (resp, d') \<and> succeeded resp \<longrightarrow>
      (\<exists>u adminData admin d1. user reqJ = Some u \<and> insertAdminSchema (body reqJ) = Inr adminData
           \<and> createAdmin bhash adminData tw d = (Inr admin, d1) \<and> auditLogs d1 = auditLogs d
           \<and> one_audit_row d1 d' u ''admin'' (a_id admin) ''create'' ta))
   \<and> (put_api_admins_id bhash reqA ta d = (resp, d') \<and> succeeded resp \<longrightarrow>
      (\<exists>u ident admin d1. user reqA = Some u \<and> parseInt10 (param reqA) = Some ident
           \<and> updateAdmin bhash ident (body reqA) d = (Inr (Some admin), d1)
           \<and> auditLogs d1 = auditLogs d
           \<and> one_audit_row d1 d' u ''admin'' ident ''update'' ta))
   \<and> (post_api_clients reqJ tw ta d = (resp, d') \<and> succeeded resp \<longrightarrow>
      (\<exists>u clientData client d1. user reqJ = Some u
           \<and> insertClientSchema (body reqJ) = Inr clientData
           \<and> createClient (clientData\<lparr>ic_createdBy := Some (u_id u)\<rparr>) tw d = (Inr client, d1)
           \<and> auditLogs d1 = auditLogs d
           \<and> one_audit_row d1 d' u ''client'' (c_id client) ''create'' ta))
   \<and> (put_api_clients_id reqC tw ta d = (resp, d') \<and> succeeded resp \<longrightarrow>
      (\<exists>u ident r d1. user reqC = Some u \<and> parseInt10 (param reqC) = Some ident
           \<and> updateClient ident (body reqC) tw d = (Inr r, d1) \<and> auditLogs d1 = auditLogs d
           \<and> one_audit_row d1 d' u ''client'' ident ''update'' ta))
   \<and> (delete_api_clients_id reqD ta d = (resp, d') \<and> succeeded resp \<longrightarrow>
      (\<exists>u ident d1. user reqD = Some u \<and> parseInt10 (param reqD) = Some ident
           \<and> deleteClient ident d = (Inr True, d1) \<and> auditLogs d1 = auditLogs d
           \<and> one_audit_row d1 d' u ''client'' ident ''delete'' ta))
   \<and> (post_api_clients_interactions toDate reqJ tw ta d = (resp, d') \<and> succeeded resp \<longrightarrow>
      (\<exists>u clientId interactionData interaction d1. user reqJ = Some u
           \<and> parseInt10 (param reqJ) = Some clientId
           \<and> insertInteractionSchema toDate
                (body reqJ @ [(''clientId'', JNum clientId), (''createdBy'', JNum (u_id u))])
               = Inr interactionData
           \<and> createInteraction interactionData tw d = (Inr interaction, d1)
           \<and> auditLogs d1 = auditLogs d
           \<and> one_audit_row d1 d' u ''interaction'' (i_id interaction) ''create'' ta))
   \<and> (put_api_interactions_id reqI tw ta d = (resp, d') \<and> succeeded resp \<longrightarrow>
      (\<exists>u ident r d1. user reqI = Some u \<and> parseInt10 (param reqI) = Some ident
           \<and> updateInteraction ident (body reqI) tw d = (Inr r, d1) \<and> auditLogs d1 = auditLogs d
           \<and> one_audit_row d1 d' u ''interaction'' ident ''update'' ta))
   \<and> (delete_api_interactions_id reqD ta d = (resp, d') \<and> succeeded resp \<longrightarrow>
      (\<exists>u ident d1. user reqD = Some u \<and> parseInt10 (param reqD) = Some ident
           \<and> deleteInteraction ident d = (Inr True, d1) \<and> auditLogs d1 = auditLogs d
           \<and> one_audit_row d1 d' u ''interaction'' ident ''delete'' ta))"
  by (intro conjI impI; elim conjE;
      rule post_api_admins_audited put_api_admins_id_audited post_api_clients_audited
        put_api_clients_id_audited delete_api_clients_id_audited
        post_api_clients_interactions_audited put_api_interactions_id_audited
        delete_api_interactions_id_audited; assumption)

lemma ex_admin_parsed:
  "insertAdminSchema ex_admin_body
     = Inr \<lparr>ia_username = ''erin'', ia_password = ''pw123456'', ia_fullName = ''Erin Roe'',
            ia_email = ''erin@x.com'', ia_role = None, ia_active = None\<rparr>"
  by (simp add: insertAdminSchema_def ex_admin_body_def z_defs)

lemma ex_client_parsed:
  "insertClientSchema ex_client_body
      = Inr \<lparr>ic_firstName = ''Ann'', ic_lastName = ''Bell'', ic_email = ''not-an-email'',
             ic_phone = ''5550123'', ic_marketType = None, ic_market = None, ic_segment = None,
             ic_businessType = None, ic_headcountName = None, ic_headcountRole = None,
             ic_headcountEmail = None, ic_if_active = None, ic_createdBy = None\<rparr>"
  by (simp add: insertClientSchema_def ex_client_body_def z_defs)

lemma ex_interaction_parsed:
  "insertInteractionSchema ex_toDate
     (ex_interaction_body @ [(''clientId'', JNum 2), (''createdBy'', JNum 1)])
     = Inr \<lparr>ii_clientId = 2, ii_type = Call, ii_title = ''Hello'', ii_description = ''Intro'',
            ii_date = 8000, ii_createdBy = Some 1\<rparr>"
  by (simp add: insertInteractionSchema_def ex_interaction_body_def ex_toDate_def z_defs)

lemma ex_req_sel:
  "user (ex_req b p) = Some ex_session" "param (ex_req b p) = p" "body (ex_req b p) = b"
  "u_role ex_session = ''admin''" "u_id ex_session = 1"
  by (simp_all add: ex_req_def ex_session_def)

lemma ex_parseInt10: "parseInt10 ''1'' = Some 1" "parseInt10 ''2'' = Some 2"
  by (simp_all add: parseInt10_def isSpace_def isDigit_def)

lemma ex_post_admins_ok:
  "succeeded (fst (post_api_admins ex_hash (ex_req ex_admin_body []) 9000 9001 ex_db))"
  by (simp add: post_api_admins_def route_defs ex_admin_parsed createAdmin_def succeeded_def
      ex_defs range_defs)

lemma ex_put_admins_ok:
  "succeeded (fst (put_api_admins_id ex_hash
      (ex_req (noAdminData\<lparr>pa_fullName := Some ''Carol Roe''\<rparr>) ''2'') 9001 ex_db))"
  by (simp add: put_api_admins_id_def route_defs updateAdmin_def noAdminData_def
      no_values_admin_def set_admin_def admin_referenced_def succeeded_def ex_defs range_defs)

lemma ex_post_clients_ok:
  "succeeded (fst (post_api_clients (ex_req ex_client_body []) 9000 9001 ex_db))"
  by (simp add: post_api_clients_def route_defs ex_client_parsed createClient_def
      succeeded_def ex_defs range_defs)

lemma ex_put_clients_ok:
  "succeeded (fst (put_api_clients_id (ex_req (noClientData\<lparr>pc_email := Some ''x@y.com''\<rparr>) ''1'')
      9000 9001 ex_db))"
  by (simp add: put_api_clients_id_def route_defs getClient_def updateClient_def
      noClientData_def set_client_def succeeded_def ex_defs range_defs)

lemma ex_delete_clients_ok:
  "succeeded (fst (delete_api_clients_id (ex_req () ''1'') 9001 ex_db))"
  by (simp add: delete_api_clients_id_def route_defs getClient_def deleteClient_def
      succeeded_def ex_defs range_defs)

lemma ex_post_interactions_ok:
  "succeeded (fst (post_api_clients_interactions ex_toDate (ex_req ex_interaction_body ''2'')
      9000 9001 ex_db))"
  by (simp add: post_api_clients_interactions_def route_defs getClient_def
      ex_interaction_parsed createInteraction_def succeeded_def ex_defs range_defs)

lemma ex_put_interactions_ok:
  "succeeded (fst (put_api_interactions_id
      (ex_req (noInteractionData\<lparr>pi_title := Some ''Call back''\<rparr>) ''2'') 9000 9001 ex_db))"
  by (simp add: put_api_interactions_id_def route_defs getInteraction_def
      updateInteraction_def noInteractionData_def set_interaction_def succeeded_def ex_defs range_defs)

lemma ex_delete_interactions_ok:
  "succeeded (fst (delete_api_interactions_id (ex_req () ''2'') 9001 ex_db))"
  by (simp add: delete_api_interactions_id_def route_defs getInteraction_def
      deleteInteraction_def succeeded_def ex_defs range_defs)

theorem mutating_routes_audit_once_witness:
  "succeeded (fst (post_api_admins ex_hash (ex_req ex_admin_body []) 9000 9001 ex_db))
   \<and> (\<exists>u adminData admin d1. user (ex_req ex_admin_body []) = Some u
        \<and> insertAdminSchema (body (ex_req ex_admin_body [])) = Inr adminData
        \<and> createAdmin ex_hash adminData 9000 ex_db = (Inr admin, d1)
        \<and> auditLogs d1 = auditLogs ex_db
        \<and> one_audit_row d1
             (snd (post_api_admins ex_hash (ex_req ex_admin_body []) 9000 9001 ex_db))
             u ''admin'' (a_id admin) ''create'' 9001)
   \<and> succeeded (fst (put_api_admins_id ex_hash
        (ex_req (noAdminData\<lparr>pa_fullName := Some ''Carol Roe''\<rparr>) ''2'') 9001 ex_db))
   \<and> (\<exists>u d1. one_audit_row d1
        (snd (put_api_admins_id ex_hash
           (ex_req (noAdminData\<lparr>pa_fullName := Some ''Carol Roe''\<rparr>) ''2'') 9001 ex_db))
        u ''admin'' 2 ''update'' 9001)
   \<and> succeeded (fst (post_api_clients (ex_req ex_client_body []) 9000 9001 ex_db))
   \<and> (\<exists>u clientData client d1. user (ex_req ex_client_body []) = Some u
        \<and> insertClientSchema (body (ex_req ex_client_body [])) = Inr clientData
        \<and> createClient (clientData\<lparr>ic_createdBy := Some (u_id u)\<rparr>) 9000 ex_db
            = (Inr client, d1)
        \<and> auditLogs d1 = auditLogs ex_db
        \<and> one_audit_row d1
             (snd (post_api_clients (ex_req ex_client_body []) 9000 9001 ex_db))
             u ''client'' (c_id client) ''create'' 9001)
   \<and> succeeded (fst (put_api_clients_id
        (ex_req (noClientData\<lparr>pc_email := Some ''x@y.com''\<rparr>) ''1'') 9000 9001 ex_db))
   \<and> (\<exists>u d1. one_audit_row d1
        (snd (put_api_clients_id
           (ex_req (noClientData\<lparr>pc_email := Some ''x@y.com''\<rparr>) ''1'') 9000 9001 ex_db))
        u ''client'' 1 ''update'' 9001)
   \<and> succeeded (fst (delete_api_clients_id (ex_req () ''1'') 9001 ex_db))
   \<and> (\<exists>u d1. one_audit_row d1 (snd (delete_api_clients_id (ex_req () ''1'') 9001 ex_db))
        u ''client'' 1 ''delete'' 9001)
   \<and> succeeded (fst (post_api_clients_interactions ex_toDate
        (ex_req ex_interaction_body ''2'') 9000 9001 ex_db))
   \<and> (\<exists>u clientId interactionData interaction d1.
        user (ex_req ex_interaction_body ''2'') = Some u
        \<and> parseInt10 (param (ex_req ex_interaction_body ''2'')) = Some clientId
        \<and> insertInteractionSchema ex_toDate
             (body (ex_req ex_interaction_body ''2'')
                @ [(''clientId'', JNum clientId), (''createdBy'', JNum (u_id u))])
            = Inr interactionData
        \<and> createInteraction interactionData 9000 ex_db = (Inr interaction, d1)
        \<and> auditLogs d1 = auditLogs ex_db
        \<and> one_audit_row d1
             (snd (post_api_clients_interactions ex_toDate
                (ex_req ex_interaction_body ''2'') 9000 9001 ex_db))
             u ''interaction'' (i_id interaction) ''create'' 9001)
   \<and> succeeded (fst (put_api_interactions_id
        (ex_req (noInteractionData\<lparr>pi_title := Some ''Call back''\<rparr>) ''2'') 9000 9001 ex_db))
   \<and> (\<exists>u d1. one_audit_row d1
        (snd (put_api_interactions_id
           (ex_req (noInteractionData\<lparr>pi_title := Some ''Call back''\<rparr>) ''2'') 9000 9001 ex_db))
        u ''interaction'' 2 ''update'' 9001)
   \<and> succeeded (fst (delete_api_interactions_id (ex_req () ''2'') 9001 ex_db))
   \<and> (\<exists>u d1. one_audit_row d1 (snd (delete_api_interactions_id (ex_req () ''2'') 9001 ex_db))
        u ''interaction'' 2 ''delete'' 9001)"
proof -
  note T = mutating_routes_audit_once
  have c1: "\<exists>u adminData admin d1. user (ex_req ex_admin_body []) = Some u
        \<and> insertAdminSchema (body (ex_req ex_admin_body [])) = Inr adminData
        \<and> createAdmin ex_hash adminData 9000 ex_db = (Inr admin, d1)
        \<and> auditLogs d1 = auditLogs ex_db
        \<and> one_audit_row d1
             (snd (post_api_admins ex_hash (ex_req ex_admin_body []) 9000 9001 ex_db))
             u ''admin'' (a_id admin) ''create'' 9001"
    using T [where reqJ = "ex_req ex_admin_body []" and bhash = ex_hash and tw = 9000
        and ta = 9001 and d = ex_db
        and resp = "fst (post_api_admins ex_hash (ex_req ex_admin_body []) 9000 9001 ex_db)"
        and d' = "snd (post_api_admins ex_hash (ex_req ex_admin_body []) 9000 9001 ex_db)", THEN conjunct1]
      ex_post_admins_ok
    by simp
  have c2: "\<exists>u d1. one_audit_row d1
        (snd (put_api_admins_id ex_hash
           (ex_req (noAdminData\<lparr>pa_fullName := Some ''Carol Roe''\<rparr>) ''2'') 9001 ex_db))
        u ''admin'' 2 ''update'' 9001"
    using T [where reqA = "ex_req (noAdminData\<lparr>pa_fullName := Some ''Carol Roe''\<rparr>) ''2''"
        and bhash = ex_hash and ta = 9001 and d = ex_db
        and resp = "fst (put_api_admins_id ex_hash
           (ex_req (noAdminData\<lparr>pa_fullName := Some ''Carol Roe''\<rparr>) ''2'') 9001 ex_db)"
        and d' = "snd (put_api_admins_id ex_hash
           (ex_req (noAdminData\<lparr>pa_fullName := Some ''Carol Roe''\<rparr>) ''2'') 9001 ex_db)", THEN conjunct2, THEN conjunct1]
      ex_put_admins_ok
    by (auto simp: ex_req_sel ex_parseInt10)
  have c3: "\<exists>u clientData client d1. user (ex_req ex_client_body []) = Some u
        \<and> insertClientSchema (body (ex_req ex_client_body [])) = Inr clientData
        \<and> createClient (clientData\<lparr>ic_createdBy := Some (u_id u)\<rparr>) 9000 ex_db
            = (Inr client, d1)
        \<and> auditLogs d1 = auditLogs ex_db
        \<and> one_audit_row d1
             (snd (post_api_clients (ex_req ex_client_body []) 9000 9001 ex_db))
             u ''client'' (c_id client) ''create'' 9001"
    using T [where reqJ = "ex_req ex_client_body []" and tw = 9000 and ta = 9001 and d = ex_db
        and resp = "fst (post_api_clients (ex_req ex_client_body []) 9000 9001 ex_db)"
        and d' = "snd (post_api_clients (ex_req ex_client_body []) 9000 9001 ex_db)", THEN conjunct2, THEN conjunct2, THEN conjunct1]
      ex_post_clients_ok
    by simp
  have c4: "\<exists>u d1. one_audit_row d1
        (snd (put_api_clients_id
           (ex_req (noClientData\<lparr>pc_email := Some ''x@y.com''\<rparr>) ''1'') 9000 9001 ex_db))
        u ''client'' 1 ''update'' 9001"
    using T [where reqC = "ex_req (noClientData\<lparr>pc_email := Some ''x@y.com''\<rparr>) ''1''"
        and tw = 9000 and ta = 9001 and d = ex_db
        and resp = "fst (put_api_clients_id
           (ex_req (noClientData\<lparr>pc_email := Some ''x@y.com''\<rparr>) ''1'') 9000 9001 ex_db)"
        and d' = "snd (put_api_clients_id
           (ex_req (noClientData\<lparr>pc_email := Some ''x@y.com''\<rparr>) ''1'') 9000 9001 ex_db)", THEN conjunct2, THEN conjunct2, THEN conjunct2, THEN conjunct1]
      ex_put_clients_ok
    by (auto simp: ex_req_sel ex_parseInt10)
  have c5: "\<exists>u d1. one_audit_row d1 (snd (delete_api_clients_id (ex_req () ''1'') 9001 ex_db))
        u ''client'' 1 ''delete'' 9001"
    using T [where reqD = "ex_req () ''1''" and ta = 9001 and d = ex_db
        and resp = "fst (delete_api_clients_id (ex_req () ''1'') 9001 ex_db)"
        and d' = "snd (delete_api_clients_id (ex_req () ''1'') 9001 ex_db)", THEN conjunct2, THEN conjunct2, THEN conjunct2, THEN conjunct2, THEN conjunct1]
      ex_delete_clients_ok
    by (auto simp: ex_req_sel ex_parseInt10)
  have c6: "\<exists>u clientId interactionData interaction d1.
        user (ex_req ex_interaction_body ''2'') = Some u
        \<and> parseInt10 (param (ex_req ex_interaction_body ''2'')) = Some clientId
        \<and> insertInteractionSchema ex_toDate
             (body (ex_req ex_interaction_body ''2'')
                @ [(''clientId'', JNum clientId), (''createdBy'', JNum (u_id u))])
            = Inr interactionData
        \<and> createInteraction interactionData 9000 ex_db = (Inr interaction, d1)
        \<and> auditLogs d1 = auditLogs ex_db
        \<and> one_audit_row d1
             (snd (post_api_clients_interactions ex_toDate
                (ex_req ex_interaction_body ''2'') 9000 9001 ex_db))
             u ''interaction'' (i_id interaction) ''create'' 9001"
    using T [where reqJ = "ex_req ex_interaction_body ''2''" and toDate = ex_toDate and tw = 9000
        and ta = 9001 and d = ex_db
        and resp = "fst (post_api_clients_interactions ex_toDate
           (ex_req ex_interaction_body ''2'') 9000 9001 ex_db)"
        and d' = "snd (post_api_clients_interactions ex_toDate
           (ex_req ex_interaction_body ''2'') 9000 9001 ex_db)", THEN conjunct2, THEN conjunct2, THEN conjunct2, THEN conjunct2, THEN conjunct2, THEN conjunct1]
      ex_post_interactions_ok
    by simp
  have c7: "\<exists>u d1. one_audit_row d1
        (snd (put_api_interactions_id
           (ex_req (noInteractionData\<lparr>pi_title := Some ''Call back''\<rparr>) ''2'') 9000 9001 ex_db))
        u ''interaction'' 2 ''update'' 9001"
    using T [where reqI = "ex_req (noInteractionData\<lparr>pi_title := Some ''Call back''\<rparr>) ''2''"
        and tw = 9000 and ta = 9001 and d = ex_db
        and resp = "fst (put_api_interactions_id
           (ex_req (noInteractionData\<lparr>pi_title := Some ''Call back''\<rparr>) ''2'') 9000 9001 ex_db)"
        and d' = "snd (put_api_interactions_id
           (ex_req (noInteractionData\<lparr>pi_title := Some ''Call back''\<rparr>) ''2'') 9000 9001 ex_db)", THEN conjunct2, THEN conjunct2, THEN conjunct2, THEN conjunct2, THEN conjunct2, THEN conjunct2, THEN conjunct1]
      ex_put_interactions_ok
    by (auto simp: ex_req_sel ex_parseInt10)
  have c8: "\<exists>u d1. one_audit_row d1 (snd (delete_api_interactions_id (ex_req () ''2'') 9001 ex_db))
        u ''interaction'' 2 ''delete'' 9001"
    using T [where reqD = "ex_req () ''2''" and ta = 9001 and d = ex_db
        and resp = "fst (delete_api_interactions_id (ex_req () ''2'') 9001 ex_db)"
        and d' = "snd (delete_api_interactions_id (ex_req () ''2'') 9001 ex_db)", THEN conjunct2, THEN conjunct2, THEN conjunct2, THEN conjunct2, THEN conjunct2, THEN conjunct2, THEN conjunct2]
      ex_delete_interactions_ok
    by (auto simp: ex_req_sel ex_parseInt10)
  show ?thesis
    using c1 c2 c3 c4 c5 c6 c7 c8 ex_post_admins_ok ex_put_admins_ok ex_post_clients_ok
      ex_put_clients_ok ex_delete_clients_ok ex_post_interactions_ok ex_put_interactions_ok
      ex_delete_interactions_ok
    by (intro conjI)
qed

text \<open>
  The two repository writes outside the routes' audit helper: seeding an empty store
  creates an admin, and a successful login updates one, and the audit table stays empty.
\<close>

theorem unaudited_writes_counterexample:
  "seedDefaultAdmin ex_hash 100 empty_db
     = ([ConsoleLog ''Default admin account created''],
        empty_db\<lparr>admins_id_seq := 1, admins := [ex_root\<lparr>a_createdAt := 100\<rparr>]\<rparr>)
   \<and> auditLogs (empty_db\<lparr>admins_id_seq := 1, admins := [ex_root\<lparr>a_createdAt := 100\<rparr>]\<rparr>) = []
   \<and> post_api_auth_login ex_compare (ex_login ''admin'' ''admin123'') 9000 ex_db
     = (Json 200 (UserP ex_session),
        ex_db\<lparr>admins := [ex_root\<lparr>a_lastLogin := Some 9000\<rparr>, ex_carol]\<rparr>)
   \<and> auditLogs (ex_db\<lparr>admins := [ex_root\<lparr>a_lastLogin := Some 9000\<rparr>, ex_carol]\<rparr>) = []"
  by (simp add: seedDefaultAdmin_def listAdmins_def createAdmin_def defaultAdmin_def
      unique_ok_def setcol_def post_api_auth_login_def ex_login_parse verify_def
      getAdminByUsername_def validatePassword_def updateLastLogin_def ex_defs range_defs Let_def)

section \<open>A rejected audit insert\<close>

lemma no_stale_schema_text:
  "\<not> sublist stale_schema_text (error_message UniqueViolation)
   \<and> \<not> sublist stale_schema_text (error_message ForeignKeyViolation)
   \<and> \<not> sublist stale_schema_text (error_message NoValuesToSet)
   \<and> \<not> sublist stale_schema_text (error_message OutOfRange)"
  by code_simp

lemma post_api_clients_catch_500:
  "post_api_clients_catch e = Json 500 (Message (error_message e))"
  by (cases e) (simp_all add: post_api_clients_catch_def no_stale_schema_text)

lemma post_api_admins_audit_rejected:
  assumes "user req = Some u" and "u_role u = ''admin''"
    and "insertAdminSchema (body req) = Inr adminData"
    and "createAdmin bhash adminData tw d = (Inr admin, d1)" and "audit_rejects u ta d1 e"
  shows "post_api_admins bhash req tw ta d = (Next e, audit_seq_advanced d1)"
  using assms by (simp add: post_api_admins_def requireAdmin_def createAuditLog_rejected)

lemma put_api_admins_id_audit_rejected:
  assumes "user req = Some u" and "u_role u = ''admin''"
    and "parseInt10 (param req) = Some ident"
    and "updateAdmin bhash ident (body req) d = (Inr (Some admin), d1)"
    and "audit_rejects u ta d1 e"
  shows "put_api_admins_id bhash req ta d = (Next e, audit_seq_advanced d1)"
  using assms by (simp add: put_api_admins_id_def requireAdmin_def createAuditLog_rejected)

lemma post_api_clients_audit_rejected:
  assumes "user req = Some u" and "insertClientSchema (body req) = Inr clientData"
    and "createClient (clientData\<lparr>ic_createdBy := Some (u_id u)\<rparr>) tw d = (Inr client, d1)"
    and "audit_rejects u ta d1 e"
  shows "post_api_clients req tw ta d
           = (Json 500 (Message (error_message e)), audit_seq_advanced d1)"
  using assms
  by (simp add: post_api_clients_def requireAuth_def createAuditLog_rejected
      post_api_clients_catch_500)

lemma put_api_clients_id_audit_rejected:
  assumes "user req = Some u" and "parseInt10 (param req) = Some ident"
    and "getClient ident d = Inr (Some c)" and "updateClient ident (body req) tw d = (Inr r, d1)"
    and "audit_rejects u ta d1 e"
  shows "put_api_clients_id req tw ta d = (Next e, audit_seq_advanced d1)"
  using assms
  by (simp add: put_api_clients_id_def requireAuth_def createAuditLog_rejected)

lemma delete_api_clients_id_audit_rejected:
  assumes "user req = Some u" and "parseInt10 (param req) = Some ident"
    and "getClient ident d = Inr (Some c)" and "deleteClient ident d = (Inr True, d1)"
    and "audit_rejects u ta d1 e"
  shows "delete_api_clients_id req ta d = (Next e, audit_seq_advanced d1)"
  using assms
  by (simp add: delete_api_clients_id_def requireAuth_def createAuditLog_rejected)

lemma post_api_clients_interactions_audit_rejected:
  assumes "user req = Some u" and "parseInt10 (param req) = Some clientId"
    and "getClient clientId d = Inr (Some c)"
    and "insertInteractionSchema toDate
           (body req @ [(''clientId'', JNum clientId), (''createdBy'', JNum (u_id u))])
          = Inr interactionData"
    and "createInteraction interactionData tw d = (Inr interaction, d1)"
    and "audit_rejects u ta d1 e"
  shows "post_api_clients_interactions toDate req tw ta d = (Next e, audit_seq_advanced d1)"
  using assms
  by (simp add: post_api_clients_interactions_def requireAuth_def createAuditLog_rejected)

lemma put_api_interactions_id_audit_rejected:
  assumes "user req = Some u" and "parseInt10 (param req) = Some ident"
    and "getInteraction ident d = Inr (Some i)"
    and "updateInteraction ident (body req) tw d = (Inr r, d1)"
    and "audit_rejects u ta d1 e"
  shows "put_api_interactions_id req tw ta d = (Next e, audit_seq_advanced d1)"
  using assms
  by (simp add: put_api_interactions_id_def requireAuth_def createAuditLog_rejected)

lemma delete_api_interactions_id_audit_rejected:
  assumes "user req = Some u" and "parseInt10 (param req) = Some ident"
    and "getInteraction ident d = Inr (Some i)" and "deleteInteraction ident d = (Inr True, d1)"
    and "audit_rejects u ta d1 e"
  shows "delete_api_interactions_id req ta d = (Next e, audit_seq_advanced d1)"
  using assms
  by (simp add: delete_api_interactions_id_def requireAuth_def createAuditLog_rejected)

text \<open>
  C3, as amended. When the repository call of a mutating route has resolved and the
  audit insert is then rejected, the data write stays (the store is the one after the
  write, with only the audit sequence advanced), but the success response is not sent:
  the error goes to \<^verbatim>\<open>next\<close>, and in \<^verbatim>\<open>POST /api/clients\<close> into a 500 body. No route
  catches the audit failure on its own.
\<close>

theorem audit_failure_fails_the_request:
  "(user reqJ = Some u \<and> u_role u = ''admin'' \<and> insertAdminSchema (body reqJ) = Inr adminData
      \<and> createAdmin bhash adminData tw d = (Inr admin, dw) \<and> audit_rejects u ta dw e \<longrightarrow>
      post_api_admins bhash reqJ tw ta d = (Next e, audit_seq_advanced dw))
   \<and> (user reqA = Some u \<and> u_role u = ''admin'' \<and> parseInt10 (param reqA) = Some ident
      \<and> updateAdmin bhash ident (body reqA) d = (Inr (Some admin), dw)
      \<and> audit_rejects u ta dw e \<longrightarrow>
      put_api_admins_id bhash reqA ta d = (Next e, audit_seq_advanced dw))
   \<and> (user reqJ = Some u \<and> insertClientSchema (body reqJ) = Inr clientData
      \<and> createClient (clientData\<lparr>ic_createdBy := Some (u_id u)\<rparr>) tw d = (Inr client, dw)
      \<and> audit_rejects u ta dw e \<longrightarrow>
      post_api_clients reqJ tw ta d
        = (Json 500 (Message (error_message e)), audit_seq_advanced dw))
   \<and> (user reqC = Some u \<and> parseInt10 (param reqC) = Some ident \<and> getClient ident d = Inr (Some c)
      \<and> updateClient ident (body reqC) tw d = (Inr r, dw) \<and> audit_rejects u ta dw e \<longrightarrow>
      put_api_clients_id reqC tw ta d = (Next e, audit_seq_advanced dw))
   \<and> (user reqD = Some u \<and> parseInt10 (param reqD) = Some ident \<and> getClient ident d = Inr (Some c)
      \<and> deleteClient ident d = (Inr True, dw) \<and> audit_rejects u ta dw e \<longrightarrow>
      delete_api_clients_id reqD ta d = (Next e, audit_seq_advanced dw))
   \<and> (user reqJ = Some u \<and> parseInt10 (param reqJ) = Some ident \<and> getClient ident d = Inr (Some c)
      \<and> insertInteractionSchema toDate
           (body reqJ @ [(''clientId'', JNum ident), (''createdBy'', JNum (u_id u))])
          = Inr interactionData
      \<and> createInteraction interactionData tw d = (Inr interaction, dw)
      \<and> audit_rejects u ta dw e \<longrightarrow>
      post_api_clients_interactions toDate reqJ tw ta d = (Next e, audit_seq_advanced dw))
   \<and> (user reqI = Some u \<and> parseInt10 (param reqI) = Some ident
      \<and> getInteraction ident d = Inr (Some i)
      \<and> updateInteraction ident (body reqI) tw d = (Inr s, dw) \<and> audit_rejects u ta dw e \<longrightarrow>
      put_api_interactions_id reqI tw ta d = (Next e, audit_seq_advanced dw))
   \<and> (user reqD = Some u \<and> parseInt10 (param reqD) = Some ident
      \<and> getInteraction ident d = Inr (Some i)
      \<and> deleteInteraction ident d = (Inr True, dw) \<and> audit_rejects u ta dw e \<longrightarrow>
      delete_api_interactions_id reqD ta d = (Next e, audit_seq_advanced dw))"
  by (intro conjI impI; elim conjE;
      rule post_api_admins_audit_rejected put_api_admins_id_audit_rejected
        post_api_clients_audit_rejected put_api_clients_id_audit_rejected
        delete_api_clients_id_audit_rejected post_api_clients_interactions_audit_rejected
        put_api_interactions_id_audit_rejected delete_api_interactions_id_audit_rejected;
      assumption)

lemma ex_createAdmin:
  "createAdmin ex_hash \<lparr>ia_username = ''erin'', ia_password = ''pw123456'',
       ia_fullName = ''Erin Roe'', ia_email = ''erin@x.com'', ia_role = None, ia_active = None\<rparr>
     9000 ex_db
   = (Inr ex_erin, ex_db\<lparr>admins_id_seq := 3, admins := [ex_root, ex_carol, ex_erin]\<rparr>)"
  by (simp add: createAdmin_def unique_ok_def setcol_def ex_erin_def ex_defs range_defs Let_def)

lemma ex_updateAdmin:
  "updateAdmin ex_hash 2 (noAdminData\<lparr>pa_fullName := Some ''Carol Roe''\<rparr>) ex_db
   = (Inr (Some (ex_carol\<lparr>a_fullName := ''Carol Roe''\<rparr>)),
      ex_db\<lparr>admins := [ex_root, ex_carol\<lparr>a_fullName := ''Carol Roe''\<rparr>]\<rparr>)"
  by (simp add: updateAdmin_def noAdminData_def no_values_admin_def set_admin_def setcol_def
      unique_ok_def admin_referenced_def ex_defs range_defs Let_def)

lemma ex_createClient:
  "createClient \<lparr>ic_firstName = ''Ann'', ic_lastName = ''Bell'', ic_email = ''not-an-email'',
       ic_phone = ''5550123'', ic_marketType = None, ic_market = None, ic_segment = None,
       ic_businessType = None, ic_headcountName = None, ic_headcountRole = None,
       ic_headcountEmail = None, ic_if_active = None, ic_createdBy = Some 1\<rparr> 9000 ex_db_clash
   = (Inr ex_ann, ex_db_clash\<lparr>clients_id_seq := 3, clients := [ex_john, ex_mary, ex_ann]\<rparr>)"
  by (simp add: createClient_def unique_ok_def admin_ref_ok_def setcol_def ex_ann_def
      ex_db_clash_def ex_defs range_defs Let_def)

lemma ex_deleteClient:
  "deleteClient 1 ex_db = (Inr True, ex_db\<lparr>clients := [ex_mary], interactions := [ex_ring]\<rparr>)"
  by (simp add: deleteClient_def ex_defs range_defs Let_def)

lemma ex_createInteraction:
  "createInteraction \<lparr>ii_clientId = 2, ii_type = Call, ii_title = ''Hello'',
       ii_description = ''Intro'', ii_date = 8000, ii_createdBy = Some 1\<rparr> 9000 ex_db_clash
   = (Inr ex_hello,
      ex_db_clash\<lparr>interactions_id_seq := 3, interactions := [ex_visit, ex_ring, ex_hello]\<rparr>)"
  by (simp add: createInteraction_def unique_ok_def admin_ref_ok_def ex_hello_def
      ex_db_clash_def ex_defs range_defs Let_def)

lemma ex_deleteInteraction:
  "deleteInteraction 2 ex_db = (Inr True, ex_db\<lparr>interactions := [ex_visit]\<rparr>)"
  by (simp add: deleteInteraction_def ex_defs range_defs Let_def)

lemma stale_audit_rejected:
  "admins d1 = admins ex_db \<or> admins d1 = [ex_root, ex_carol, ex_erin]
     \<or> admins d1 = [ex_root, ex_carol\<lparr>a_fullName := ''Carol Roe''\<rparr>] \<Longrightarrow>
   auditLogs d1 = [] \<Longrightarrow> audit_rejects ex_stale_user 9001 d1 ForeignKeyViolation"
  by (auto simp: audit_rejects_def storage_createAuditLog_def unique_ok_def admin_ref_ok_def
      ex_stale_user_def ex_erin_def ex_defs range_defs Let_def)

lemma clash_audit_rejected:
  "admins d1 = admins ex_db_clash \<Longrightarrow> auditLogs d1 = auditLogs ex_db_clash \<Longrightarrow>
   audit_logs_id_seq d1 = 0 \<Longrightarrow> audit_rejects ex_session 9001 d1 UniqueViolation"
  by (auto simp: audit_rejects_def storage_createAuditLog_def unique_ok_def admin_ref_ok_def
      ex_db_clash_def ex_old_log_def ex_defs range_defs Let_def)

lemma ex_stale_sel:
  "user (ex_stale_req b p) = Some ex_stale_user" "param (ex_stale_req b p) = p"
  "body (ex_stale_req b p) = b" "u_role ex_stale_user = ''admin''" "u_id ex_stale_user = 7"
  by (simp_all add: ex_stale_req_def ex_stale_user_def)

lemma ex_gets:
  "getClient 1 ex_db = Inr (Some ex_john)" "getClient 2 ex_db_clash = Inr (Some ex_mary)"
  "getInteraction 2 ex_db = Inr (Some ex_ring)" "auditLogs ex_db = []"
  "audit_logs_id_seq ex_db_clash = 0"
  by (simp_all add: getClient_def getInteraction_def ex_db_clash_def ex_defs range_defs)

theorem audit_failure_fails_the_request_witness:
  "post_api_admins ex_hash (ex_stale_req ex_admin_body []) 9000 9001 ex_db
     = (Next ForeignKeyViolation,
        audit_seq_advanced (ex_db\<lparr>admins_id_seq := 3, admins := [ex_root, ex_carol, ex_erin]\<rparr>))
   \<and> put_api_admins_id ex_hash
        (ex_stale_req (noAdminData\<lparr>pa_fullName := Some ''Carol Roe''\<rparr>) ''2'') 9001 ex_db
     = (Next ForeignKeyViolation,
        audit_seq_advanced (ex_db\<lparr>admins := [ex_root, ex_carol\<lparr>a_fullName := ''Carol Roe''\<rparr>]\<rparr>))
   \<and> post_api_clients (ex_req ex_client_body []) 9000 9001 ex_db_clash
     = (Json 500 (Message (error_message UniqueViolation)),
        audit_seq_advanced
          (ex_db_clash\<lparr>clients_id_seq := 3, clients := [ex_john, ex_mary, ex_ann]\<rparr>))
   \<and> put_api_clients_id (ex_stale_req (noClientData\<lparr>pc_email := Some ''x@y.com''\<rparr>) ''1'')
        9000 9001 ex_db
     = (Next ForeignKeyViolation,
        audit_seq_advanced
          (ex_db\<lparr>clients := [ex_john\<lparr>c_email := ''x@y.com'', c_updatedAt := 9000\<rparr>, ex_mary]\<rparr>))
   \<and> delete_api_clients_id (ex_stale_req () ''1'') 9001 ex_db
     = (Next ForeignKeyViolation,
        audit_seq_advanced (ex_db\<lparr>clients := [ex_mary], interactions := [ex_ring]\<rparr>))
   \<and> post_api_clients_interactions ex_toDate (ex_req ex_interaction_body ''2'') 9000 9001
        ex_db_clash
     = (Next UniqueViolation,
        audit_seq_advanced
          (ex_db_clash\<lparr>interactions_id_seq := 3,
                       interactions := [ex_visit, ex_ring, ex_hello]\<rparr>))
   \<and> put_api_interactions_id
        (ex_stale_req (noInteractionData\<lparr>pi_title := Some ''Call back''\<rparr>) ''2'') 9000 9001 ex_db
     = (Next ForeignKeyViolation,
        audit_seq_advanced
          (ex_db\<lparr>interactions :=
                   [ex_visit, ex_ring\<lparr>i_title := ''Call back'', i_updatedAt := 9000\<rparr>]\<rparr>))
   \<and> delete_api_interactions_id (ex_stale_req () ''2'') 9001 ex_db
     = (Next ForeignKeyViolation, audit_seq_advanced (ex_db\<lparr>interactions := [ex_visit]\<rparr>))"
proof -
  note sel = ex_stale_sel ex_req_sel ex_parseInt10 ex_gets
  have r1: "audit_rejects ex_stale_user 9001
      (ex_db\<lparr>admins_id_seq := 3, admins := [ex_root, ex_carol, ex_erin]\<rparr>) ForeignKeyViolation"
    by (rule stale_audit_rejected) (simp_all add: ex_gets)
  have r2: "audit_rejects ex_stale_user 9001
      (ex_db\<lparr>admins := [ex_root, ex_carol\<lparr>a_fullName := ''Carol Roe''\<rparr>]\<rparr>) ForeignKeyViolation"
    by (rule stale_audit_rejected) (simp_all add: ex_gets)
  have r3: "audit_rejects ex_session 9001
      (ex_db_clash\<lparr>clients_id_seq := 3, clients := [ex_john, ex_mary, ex_ann]\<rparr>) UniqueViolation"
    by (rule clash_audit_rejected) (simp_all add: ex_gets)
  have r4: "audit_rejects ex_stale_user 9001
      (ex_db\<lparr>clients := [ex_john\<lparr>c_email := ''x@y.com'', c_updatedAt := 9000\<rparr>, ex_mary]\<rparr>)
      ForeignKeyViolation"
    by (rule stale_audit_rejected) (simp_all add: ex_gets)
  have r5: "audit_rejects ex_stale_user 9001
      (ex_db\<lparr>clients := [ex_mary], interactions := [ex_ring]\<rparr>) ForeignKeyViolation"
    by (rule stale_audit_rejected) (simp_all add: ex_gets)
  have r6: "audit_rejects ex_session 9001
      (ex_db_clash\<lparr>interactions_id_seq := 3, interactions := [ex_visit, ex_ring, ex_hello]\<rparr>)
      UniqueViolation"
    by (rule clash_audit_rejected) (simp_all add: ex_gets)
  have r7: "audit_rejects ex_stale_user 9001
      (ex_db\<lparr>interactions :=
               [ex_visit, ex_ring\<lparr>i_title := ''Call back'', i_updatedAt := 9000\<rparr>]\<rparr>)
      ForeignKeyViolation"
    by (rule stale_audit_rejected) (simp_all add: ex_gets)
  have r8: "audit_rejects ex_stale_user 9001 (ex_db\<lparr>interactions := [ex_visit]\<rparr>)
      ForeignKeyViolation"
    by (rule stale_audit_rejected) (simp_all add: ex_gets)
  note T = audit_failure_fails_the_request
  have c1: "post_api_admins ex_hash (ex_stale_req ex_admin_body []) 9000 9001 ex_db
     = (Next ForeignKeyViolation,
        audit_seq_advanced (ex_db\<lparr>admins_id_seq := 3, admins := [ex_root, ex_carol, ex_erin]\<rparr>))"
    using T [where reqJ = "ex_stale_req ex_admin_body []" and u = ex_stale_user and bhash = ex_hash
        and tw = 9000 and ta = 9001 and d = ex_db and admin = ex_erin
        and e = ForeignKeyViolation
        and dw = "ex_db\<lparr>admins_id_seq := 3, admins := [ex_root, ex_carol, ex_erin]\<rparr>"
        and adminData = "\<lparr>ia_username = ''erin'', ia_password = ''pw123456'',
          ia_fullName = ''Erin Roe'', ia_email = ''erin@x.com'', ia_role = None, ia_active = None\<rparr>"]
      r1 ex_admin_parsed ex_createAdmin
    by (simp add: sel)
  have c2: "put_api_admins_id ex_hash
        (ex_stale_req (noAdminData\<lparr>pa_fullName := Some ''Carol Roe''\<rparr>) ''2'') 9001 ex_db
     = (Next ForeignKeyViolation,
        audit_seq_advanced (ex_db\<lparr>admins := [ex_root, ex_carol\<lparr>a_fullName := ''Carol Roe''\<rparr>]\<rparr>))"
    using T [where reqA = "ex_stale_req (noAdminData\<lparr>pa_fullName := Some ''Carol Roe''\<rparr>) ''2''"
        and u = ex_stale_user and bhash = ex_hash and ta = 9001 and d = ex_db and ident = 2
        and admin = "ex_carol\<lparr>a_fullName := ''Carol Roe''\<rparr>" and e = ForeignKeyViolation
        and dw = "ex_db\<lparr>admins := [ex_root, ex_carol\<lparr>a_fullName := ''Carol Roe''\<rparr>]\<rparr>"]
      r2 ex_updateAdmin
    by (simp add: sel)
  have c3: "post_api_clients (ex_req ex_client_body []) 9000 9001 ex_db_clash
     = (Json 500 (Message (error_message UniqueViolation)),
        audit_seq_advanced
          (ex_db_clash\<lparr>clients_id_seq := 3, clients := [ex_john, ex_mary, ex_ann]\<rparr>))"
    using T [where reqJ = "ex_req ex_client_body []" and u = ex_session and tw = 9000 and ta = 9001
        and d = ex_db_clash and client = ex_ann and e = UniqueViolation
        and dw = "ex_db_clash\<lparr>clients_id_seq := 3, clients := [ex_john, ex_mary, ex_ann]\<rparr>"
        and clientData = "\<lparr>ic_firstName = ''Ann'', ic_lastName = ''Bell'',
          ic_email = ''not-an-email'', ic_phone = ''5550123'', ic_marketType = None,
          ic_market = None, ic_segment = None, ic_businessType = None, ic_headcountName = None,
          ic_headcountRole = None, ic_headcountEmail = None, ic_if_active = None,
          ic_createdBy = None\<rparr>"]
      r3 ex_client_parsed ex_createClient
    by (simp add: sel)
  have c4: "put_api_clients_id (ex_stale_req (noClientData\<lparr>pc_email := Some ''x@y.com''\<rparr>) ''1'')
        9000 9001 ex_db
     = (Next ForeignKeyViolation,
        audit_seq_advanced
          (ex_db\<lparr>clients := [ex_john\<lparr>c_email := ''x@y.com'', c_updatedAt := 9000\<rparr>, ex_mary]\<rparr>))"
    using T [where reqC = "ex_stale_req (noClientData\<lparr>pc_email := Some ''x@y.com''\<rparr>) ''1''"
        and u = ex_stale_user and tw = 9000 and ta = 9001 and d = ex_db and ident = 1
        and c = ex_john and e = ForeignKeyViolation
        and r = "Some (ex_john\<lparr>c_email := ''x@y.com'', c_updatedAt := 9000\<rparr>)"
        and dw = "ex_db\<lparr>clients := [ex_john\<lparr>c_email := ''x@y.com'', c_updatedAt := 9000\<rparr>, ex_mary]\<rparr>"]
      r4 ex_updateClient
    by (simp add: sel)
  have c5: "delete_api_clients_id (ex_stale_req () ''1'') 9001 ex_db
     = (Next ForeignKeyViolation,
        audit_seq_advanced (ex_db\<lparr>clients := [ex_mary], interactions := [ex_ring]\<rparr>))"
    using T [where reqD = "ex_stale_req () ''1''" and u = ex_stale_user and ta = 9001
        and d = ex_db and ident = 1 and c = ex_john and e = ForeignKeyViolation
        and dw = "ex_db\<lparr>clients := [ex_mary], interactions := [ex_ring]\<rparr>"]
      r5 ex_deleteClient
    by (simp add: sel)
  have c6: "post_api_clients_interactions ex_toDate (ex_req ex_interaction_body ''2'') 9000 9001
        ex_db_clash
     = (Next UniqueViolation,
        audit_seq_advanced
          (ex_db_clash\<lparr>interactions_id_seq := 3,
                       interactions := [ex_visit, ex_ring, ex_hello]\<rparr>))"
    using T [where reqJ = "ex_req ex_interaction_body ''2''" and u = ex_session and tw = 9000
        and ta = 9001 and d = ex_db_clash and ident = 2 and c = ex_mary and toDate = ex_toDate
        and interaction = ex_hello and e = UniqueViolation
        and dw = "ex_db_clash\<lparr>interactions_id_seq := 3,
                       interactions := [ex_visit, ex_ring, ex_hello]\<rparr>"
        and interactionData = "\<lparr>ii_clientId = 2, ii_type = Call, ii_title = ''Hello'',
          ii_description = ''Intro'', ii_date = 8000, ii_createdBy = Some 1\<rparr>"]
      r6 ex_interaction_parsed ex_createInteraction
    by (simp add: sel)
  have c7: "put_api_interactions_id
        (ex_stale_req (noInteractionData\<lparr>pi_title := Some ''Call back''\<rparr>) ''2'') 9000 9001 ex_db
     = (Next ForeignKeyViolation,
        audit_seq_advanced
          (ex_db\<lparr>interactions :=
                   [ex_visit, ex_ring\<lparr>i_title := ''Call back'', i_updatedAt := 9000\<rparr>]\<rparr>))"
    using T [where reqI = "ex_stale_req (noInteractionData\<lparr>pi_title := Some ''Call back''\<rparr>) ''2''"
        and u = ex_stale_user and tw = 9000 and ta = 9001 and d = ex_db and ident = 2
        and i = ex_ring and e = ForeignKeyViolation
        and s = "Some (ex_ring\<lparr>i_title := ''Call back'', i_updatedAt := 9000\<rparr>)"
        and dw = "ex_db\<lparr>interactions :=
                   [ex_visit, ex_ring\<lparr>i_title := ''Call back'', i_updatedAt := 9000\<rparr>]\<rparr>"]
      r7 ex_updateInteraction
    by (simp add: sel)
  have c8: "delete_api_interactions_id (ex_stale_req () ''2'') 9001 ex_db
     = (Next ForeignKeyViolation, audit_seq_advanced (ex_db\<lparr>interactions := [ex_visit]\<rparr>))"
    using T [where reqD = "ex_stale_req () ''2''" and u = ex_stale_user and ta = 9001
        and d = ex_db and ident = 2 and i = ex_ring and e = ForeignKeyViolation
        and dw = "ex_db\<lparr>interactions := [ex_visit]\<rparr>"]
      r8 ex_deleteInteraction
    by (simp add: sel)
  show ?thesis using c1 c2 c3 c4 c5 c6 c7 c8 by simp
qed

text \<open>
  The same update by a session whose admin row is gone and by a session whose admin row
  exists: both store the new email; the first is answered with the error, the second
  with 200.
\<close>

theorem audit_failure_counterexample:
  "put_api_clients_id (ex_stale_req (noClientData\<lparr>pc_email := Some ''x@y.com''\<rparr>) ''1'')
        9000 9001 ex_db
     = (Next ForeignKeyViolation,
        ex_db\<lparr>clients := [ex_john\<lparr>c_email := ''x@y.com'', c_updatedAt := 9000\<rparr>, ex_mary],
              audit_logs_id_seq := 1\<rparr>)
   \<and> put_api_clients_id (ex_req (noClientData\<lparr>pc_email := Some ''x@y.com''\<rparr>) ''1'')
        9000 9001 ex_db
     = (Json 200 (ClientP (Some (ex_john\<lparr>c_email := ''x@y.com'', c_updatedAt := 9000\<rparr>))),
        ex_db\<lparr>clients := [ex_john\<lparr>c_email := ''x@y.com'', c_updatedAt := 9000\<rparr>, ex_mary],
              auditLogs := [\<lparr>l_id = 1, l_adminId = Some 1, l_entityType = ''client'',
                             l_entityId = 1, l_action = ''update'',
                             l_details = ''Client John Smith updated'', l_createdAt = 9001\<rparr>],
              audit_logs_id_seq := 1\<rparr>)"
  by (simp add: put_api_clients_id_def route_defs ex_stale_req_def ex_stale_user_def
      getClient_def updateClient_def noClientData_def set_client_def ex_defs range_defs)

end
